theory Spec2Isabelle
  imports Complex_Main "HOL-Library.Word"
begin

section \<open>JavaScript values\<close>

subsection \<open>Strings\<close>

text \<open>
  A JavaScript string is a sequence of UTF-16 code units; \<open>length\<close>, \<open>substring\<close> and
  \<open>trim\<close> all work on code units. The string literals of the three scripts are ASCII
  apart from a check mark and two emoji, which are written out as code units.
\<close>

type_synonym jsstr = "16 word list"

definition lit :: "string \<Rightarrow> jsstr" where
  "lit s = map of_char s"

text \<open>
  \<open>String.prototype.trim\<close> removes the code points of the grammar productions
  WhiteSpace and LineTerminator from both ends: TAB, LF, VT, FF, CR, SPACE, NBSP,
  U+1680, U+2000 to U+200A, U+2028, U+2029, U+202F, U+205F, U+3000 and U+FEFF.
\<close>

definition is_space :: "16 word \<Rightarrow> bool" where
  "is_space u \<longleftrightarrow>
     u \<in> set [0x09, 0x0A, 0x0B, 0x0C, 0x0D, 0x20, 0xA0, 0x1680,
               0x2028, 0x2029, 0x202F, 0x205F, 0x3000, 0xFEFF]
     \<or> (0x2000 \<le> u \<and> u \<le> 0x200A)"

definition trim :: "jsstr \<Rightarrow> jsstr" where
  "trim s = rev (dropWhile is_space (rev (dropWhile is_space s)))"

text \<open>\<open>s.substring(0, n)\<close> for a non-negative constant \<open>n\<close>: the first \<open>n\<close> code units.\<close>

definition substring0 :: "nat \<Rightarrow> jsstr \<Rightarrow> jsstr" where
  "substring0 n s = take n s"

text \<open>Decimal digits of a natural number.\<close>

fun dec :: "nat \<Rightarrow> jsstr" where
  "dec n = (if n < 10 then [0x30 + of_nat n]
            else dec (n div 10) @ [0x30 + of_nat (n mod 10)])"

declare dec.simps [simp del]

fun join_comma :: "jsstr list \<Rightarrow> jsstr" where
  "join_comma [] = []"
| "join_comma [s] = s"
| "join_comma (s # t # ts) = s @ 0x2C # join_comma (t # ts)"

subsection \<open>Numbers\<close>

text \<open>
  A Number is NaN, an infinity or a finite binary64 value; every finite binary64 value
  is a rational, and the two zeros are identified (no operation of the scripts tells
  them apart: both print as \<open>0\<close>, both are falsy, both compare equal). Comparison and
  \<open>Math.round\<close> are exact on these values. What rounds to binary64 or needs the
  shortest-digits algorithm is not computed here but taken from a \<open>runtime\<close> record:
  multiplication, the conversions between strings and numbers, and the printing of a
  finite number that is not a safe integer.
\<close>

datatype jsnum = NaN | PosInf | NegInf | Fin rat

record runtime =
  number_to_string :: "rat \<Rightarrow> jsstr"
  string_to_number :: "jsstr \<Rightarrow> jsnum"
  parseInt :: "jsstr \<Rightarrow> jsnum"
  parseFloat :: "jsstr \<Rightarrow> jsnum"
  multiply :: "jsnum \<Rightarrow> jsnum \<Rightarrow> jsnum"
  css_width_valid :: "jsstr \<Rightarrow> bool"
  sanitize_value :: "jsstr \<Rightarrow> jsstr"

text \<open>
  \<open>Math.round\<close>: the integer closest to the argument, the larger one of two equally
  close integers; NaN and the infinities are returned unchanged.
\<close>

definition Math_round :: "jsnum \<Rightarrow> jsnum" where
  "Math_round x = (case x of Fin q \<Rightarrow> Fin (of_int \<lfloor>q + 1 / 2\<rfloor>) | _ \<Rightarrow> x)"

text \<open>The relational operator \<open>a < b\<close> on two Numbers; false as soon as one is NaN.\<close>

fun less_than :: "jsnum \<Rightarrow> jsnum \<Rightarrow> bool" where
  "less_than NaN _ = False"
| "less_than _ NaN = False"
| "less_than (Fin a) (Fin b) = (a < b)"
| "less_than (Fin _) PosInf = True"
| "less_than (Fin _) NegInf = False"
| "less_than PosInf _ = False"
| "less_than NegInf NegInf = False"
| "less_than NegInf _ = True"

text \<open>
  \<open>Number::toString\<close>. An integer of magnitude below \<open>2^53\<close> prints as its decimal
  digits; every other finite value is printed by the runtime.
\<close>

definition Number_toString :: "runtime \<Rightarrow> jsnum \<Rightarrow> jsstr" where
  "Number_toString rt x =
     (case x of
        NaN \<Rightarrow> lit ''NaN''
      | PosInf \<Rightarrow> lit ''Infinity''
      | NegInf \<Rightarrow> lit ''-Infinity''
      | Fin q \<Rightarrow>
          if q = of_int \<lfloor>q\<rfloor> \<and> \<bar>q\<bar> < 2 ^ 53
          then (if q < 0 then lit ''-'' else []) @ dec (nat \<bar>\<lfloor>q\<rfloor>\<bar>)
          else number_to_string rt q)"

text \<open>
  \<open>x.toFixed(2)\<close> on a Number. Below \<open>10^21\<close> in magnitude it prints the integer \<open>n\<close>
  closest to \<open>100 * |x|\<close> (the larger of two candidates) with a point before its last
  two digits, after a minus sign when \<open>x < 0\<close>; otherwise it is \<open>Number::toString\<close>.
\<close>

definition pad3 :: "jsstr \<Rightarrow> jsstr" where
  "pad3 s = replicate (3 - length s) 0x30 @ s"

definition toFixed2 :: "runtime \<Rightarrow> jsnum \<Rightarrow> jsstr" where
  "toFixed2 rt x =
     (case x of
        Fin q \<Rightarrow>
          if \<bar>q\<bar> < 10 ^ 21
          then (let m = pad3 (dec (nat \<lfloor>\<bar>q\<bar> * 100 + 1 / 2\<rfloor>))
                in (if q < 0 then lit ''-'' else [])
                   @ take (length m - 2) m @ lit ''.'' @ drop (length m - 2) m)
          else Number_toString rt x
      | _ \<Rightarrow> Number_toString rt x)"

subsection \<open>Parsed JSON and coercions\<close>

text \<open>
  The value \<open>response.json()\<close> resolves to. An object is the list of its own
  properties, one entry per key. A property read that finds nothing is \<open>undefined\<close>,
  written \<open>None\<close>.
\<close>

datatype json =
    JNull
  | JBool bool
  | JNum jsnum
  | JStr jsstr
  | JArr "json list"
  | JObj "(jsstr \<times> json) list"

datatype exn =
    TypeError
  | SyntaxError
  | ReferenceError
  | Error jsstr
  | Rejection jsstr

text \<open>
  \<open>data.name\<close>, for the property names the scripts read (none of them is an index,
  \<open>length\<close> or a member of a built-in prototype): reading a property of \<open>null\<close> throws,
  an object yields its own property, anything else yields \<open>undefined\<close>.
\<close>

definition Get :: "json \<Rightarrow> string \<Rightarrow> exn + json option" where
  "Get v name =
     (case v of
        JNull \<Rightarrow> Inl TypeError
      | JObj kvs \<Rightarrow> Inr (map_of kvs (lit name))
      | _ \<Rightarrow> Inr None)"

fun sequence :: "(exn + 'a) list \<Rightarrow> exn + 'a list" where
  "sequence [] = Inr []"
| "sequence (Inl e # _) = Inl e"
| "sequence (Inr x # rs) = (case sequence rs of Inl e \<Rightarrow> Inl e | Inr xs \<Rightarrow> Inr (x # xs))"

text \<open>
  \<open>ToString\<close> of a parsed value. A plain object prints as \<open>[object Object]\<close> unless it
  has an own property \<open>toString\<close>, which after \<open>JSON.parse\<close> is never callable, so
  that the conversion to a primitive throws. An array joins its elements with commas,
  \<open>null\<close> elements printing as the empty string.
\<close>

fun ToString :: "runtime \<Rightarrow> json \<Rightarrow> exn + jsstr" where
  "ToString rt JNull = Inr (lit ''null'')"
| "ToString rt (JBool b) = Inr (if b then lit ''true'' else lit ''false'')"
| "ToString rt (JNum n) = Inr (Number_toString rt n)"
| "ToString rt (JStr s) = Inr s"
| "ToString rt (JObj kvs) =
     (if map_of kvs (lit ''toString'') \<noteq> None then Inl TypeError
      else Inr (lit ''[object Object]''))"
| "ToString rt (JArr xs) =
     (case sequence (map (\<lambda>x. if x = JNull then Inr [] else ToString rt x) xs) of
        Inl e \<Rightarrow> Inl e
      | Inr ss \<Rightarrow> Inr (join_comma ss))"

text \<open>\<open>ToNumber\<close> of the result of a property read.\<close>

definition ToNumber :: "runtime \<Rightarrow> json option \<Rightarrow> exn + jsnum" where
  "ToNumber rt v =
     (case v of
        None \<Rightarrow> Inr NaN
      | Some JNull \<Rightarrow> Inr (Fin 0)
      | Some (JBool b) \<Rightarrow> Inr (Fin (if b then 1 else 0))
      | Some (JNum n) \<Rightarrow> Inr n
      | Some (JStr s) \<Rightarrow> Inr (string_to_number rt s)
      | Some obj \<Rightarrow>
          (case ToString rt obj of
             Inl e \<Rightarrow> Inl e
           | Inr s \<Rightarrow> Inr (string_to_number rt s)))"

text \<open>\<open>ToBoolean\<close>: what an \<open>if\<close> or a conditional expression tests.\<close>

definition ToBoolean :: "json option \<Rightarrow> bool" where
  "ToBoolean v =
     (case v of
        None \<Rightarrow> False
      | Some JNull \<Rightarrow> False
      | Some (JBool b) \<Rightarrow> b
      | Some (JNum n) \<Rightarrow> n \<noteq> NaN \<and> n \<noteq> Fin 0
      | Some (JStr s) \<Rightarrow> s \<noteq> []
      | Some _ \<Rightarrow> True)"

text \<open>
  The string an assignment to \<open>textContent\<close> stores: the attribute is a nullable
  DOMString, so \<open>null\<close> and \<open>undefined\<close> become the empty string and every other value
  goes through \<open>ToString\<close>.
\<close>

definition DOMString :: "runtime \<Rightarrow> json option \<Rightarrow> exn + jsstr" where
  "DOMString rt v =
     (case v of
        None \<Rightarrow> Inr []
      | Some JNull \<Rightarrow> Inr []
      | Some x \<Rightarrow> ToString rt x)"

text \<open>
  \<open>v.toFixed(2)\<close> on the result of a property read that was truthy: only a Number has
  the method, on any other value the call throws.
\<close>

definition call_toFixed2 :: "runtime \<Rightarrow> json option \<Rightarrow> exn + jsstr" where
  "call_toFixed2 rt v =
     (case v of
        Some (JNum n) \<Rightarrow> Inr (toFixed2 rt n)
      | _ \<Rightarrow> Inl TypeError)"

text \<open>
  A number inside the argument of \<open>JSON.stringify\<close>: NaN and the infinities are
  written as \<open>null\<close>.
\<close>

definition json_number :: "jsnum \<Rightarrow> json" where
  "json_number n = (case n of Fin q \<Rightarrow> JNum (Fin q) | _ \<Rightarrow> JNull)"

section \<open>The page and its surroundings\<close>

text \<open>
  Each script binds its elements once with \<open>document.getElementById\<close>; the document is
  a function from the id to the element, and every id the scripts use names an element
  of the page. An element carries the properties the scripts read or write: \<open>el_value\<close>
  is what reading \<open>value\<close> returns, a style field is the inline style property.
\<close>

record element =
  textContent :: jsstr
  el_value :: jsstr
  disabled :: bool
  classList :: "jsstr list"
  style_display :: jsstr
  style_color :: jsstr
  style_width :: jsstr
  style_background :: jsstr

definition classList_add :: "jsstr \<Rightarrow> element \<Rightarrow> element" where
  "classList_add t e =
     e\<lparr>classList := (if t \<in> set (classList e) then classList e else classList e @ [t])\<rparr>"

definition classList_remove :: "jsstr \<Rightarrow> element \<Rightarrow> element" where
  "classList_remove t e = e\<lparr>classList := removeAll t (classList e)\<rparr>"

text \<open>
  An HTTP request as \<open>fetch\<close> receives it; the body is the JSON document that
  \<open>JSON.stringify\<close> serialises.
\<close>

record request =
  url :: jsstr
  http_method :: jsstr
  content_type :: jsstr
  body :: json

text \<open>
  The record handed to \<open>collection(...).add\<close>. The timestamp is the sentinel
  \<open>FieldValue.serverTimestamp()\<close>, which the store replaces by its own clock.
\<close>

datatype timestamp = ServerTimestamp

record audit_record =
  rec_type :: jsstr
  rec_input :: jsstr
  rec_output :: json
  rec_timestamp :: timestamp

datatype console_arg = Text jsstr | Caught exn

text \<open>
  What a handler can change: the document, the requests handed to \<open>fetch\<close>, the lines
  written with \<open>console.error\<close>, the records handed to the document store (with the
  collection name), the system clipboard and the pending timers (delay in
  milliseconds, label the callback writes back).
\<close>

record world =
  document :: "string \<Rightarrow> element"
  fetched :: "request list"
  console :: "console_arg list list"
  added :: "(jsstr \<times> audit_record) list"
  clipboard :: "jsstr option"
  timers :: "(nat \<times> jsstr) list"

definition on_element :: "string \<Rightarrow> (element \<Rightarrow> element) \<Rightarrow> world \<Rightarrow> world" where
  "on_element i f w = w\<lparr>document := (document w)(i := f (document w i))\<rparr>"

definition console_error :: "console_arg list \<Rightarrow> world \<Rightarrow> world" where
  "console_error args w = w\<lparr>console := console w @ [args]\<rparr>"

text \<open>
  What the awaited calls deliver. \<open>fetch\<close> rejects on a network failure or resolves
  with a response whose \<open>ok\<close> flag reflects the status; \<open>response.json()\<close> rejects when
  the body is not JSON. A promise of the document store or of the clipboard is
  fulfilled or rejected.
\<close>

datatype body_outcome = Body_invalid | Body_json json

datatype fetch_outcome = Fetch_rejected | Fetch_resolved bool body_outcome

datatype settled = Fulfilled | Rejected jsstr

text \<open>
  The guard \<open>typeof firebase !== 'undefined' && firebase.firestore\<close>: the global may be
  absent, or present with or without the \<open>firestore\<close> member.

  Modelled from the spec: the store handle \<open>db\<close> of the generation and summary scripts
  is bound outside the three scripts (the detection script binds its own from
  \<open>firebase.firestore()\<close>). The spec has the presence check of the logging client come
  before the write, and has a write fail only as an error that is logged and ignored.
  So where the guard passes, \<open>db\<close> is the client, \<open>collection('results').add(record)\<close>
  hands the record over and returns a promise, and the promise is later fulfilled or
  rejected. The write expression as the scripts evaluate it, which may also throw, is
  taken up in a section of its own below.
\<close>

datatype firebase = Firebase_undefined | Firebase bool

definition firestore_present :: "firebase \<Rightarrow> bool" where
  "firestore_present fb = (case fb of Firebase_undefined \<Rightarrow> False | Firebase has \<Rightarrow> has)"

subsection \<open>Shared by the three scripts\<close>

text \<open>\<open>showError\<close> and \<open>hideError\<close> are the same two functions in each script.\<close>

definition showError :: "jsstr \<Rightarrow> world \<Rightarrow> world" where
  "showError message =
     on_element ''errorMsg'' (\<lambda>e. classList_add (lit ''show'') (e\<lparr>textContent := message\<rparr>))"

definition hideError :: "world \<Rightarrow> world" where
  "hideError = on_element ''errorMsg'' (classList_remove (lit ''show''))"

text \<open>
  A statement sequence that may throw: the exception, if any, with the world as it was
  when the statement threw.
\<close>

definition andThen ::
  "exn option \<times> world \<Rightarrow> (world \<Rightarrow> exn option \<times> world) \<Rightarrow> exn option \<times> world" where
  "andThen r f = (case r of (Some e, w) \<Rightarrow> (Some e, w) | (None, w) \<Rightarrow> f w)"

text \<open>The statement \<open>element.textContent = data.field\<close>.\<close>

definition assign_textContent ::
  "runtime \<Rightarrow> string \<Rightarrow> json \<Rightarrow> string \<Rightarrow> world \<Rightarrow> exn option \<times> world" where
  "assign_textContent rt i data field w =
     (case Get data field of
        Inl e \<Rightarrow> (Some e, w)
      | Inr v \<Rightarrow>
          (case DOMString rt v of
             Inl e \<Rightarrow> (Some e, w)
           | Inr s \<Rightarrow> (None, on_element i (\<lambda>e. e\<lparr>textContent := s\<rparr>) w)))"

text \<open>
  The copy buttons: a fulfilled \<open>writeText\<close> puts the text on the clipboard, and the
  \<open>then\<close> callback swaps the label (a check mark, U+2713, before \<open>Copied!\<close>), adds the
  class and sets a timer of 2000 ms whose callback writes the label back and removes
  the class. A rejected \<open>writeText\<close> has no handler.
\<close>

definition copy_then :: "settled \<Rightarrow> jsstr \<Rightarrow> jsstr \<Rightarrow> world \<Rightarrow> world" where
  "copy_then outcome text label w =
     (case outcome of
        Rejected _ \<Rightarrow> w
      | Fulfilled \<Rightarrow>
          (let w1 = w\<lparr>clipboard := Some text\<rparr>;
               w2 = on_element ''copyBtn''
                      (\<lambda>e. classList_add (lit ''copied'')
                              (e\<lparr>textContent := 0x2713 # lit '' Copied!''\<rparr>)) w1
           in w2\<lparr>timers := timers w2 @ [(2000, label)]\<rparr>))"

definition copy_timeout :: "jsstr \<Rightarrow> world \<Rightarrow> world" where
  "copy_timeout label =
     on_element ''copyBtn'' (\<lambda>e. classList_remove (lit ''copied'') (e\<lparr>textContent := label\<rparr>))"

section \<open>Text generation: \<open>public/generate.js\<close>\<close>

definition generation_request :: "runtime \<Rightarrow> jsstr \<Rightarrow> world \<Rightarrow> request" where
  "generation_request rt prompt w =
     \<lparr>url = lit ''YOUR_CLOUD_FUNCTION_URL/generateText'',
      http_method = lit ''POST'',
      content_type = lit ''application/json'',
      body = JObj
        [(lit ''prompt'', JStr prompt),
         (lit ''tone'', JStr (el_value (document w ''toneSelect''))),
         (lit ''maxLength'', json_number (parseInt rt (el_value (document w ''lengthSelect'')))),
         (lit ''temperature'',
            json_number (parseFloat rt (el_value (document w ''tempSlider''))))]\<rparr>"

definition displayResults_generation :: "runtime \<Rightarrow> json \<Rightarrow> world \<Rightarrow> exn option \<times> world" where
  "displayResults_generation rt data w =
     andThen (andThen (andThen
       (assign_textContent rt ''generatedText'' data ''generatedText'' w)
       (assign_textContent rt ''wordCount'' data ''wordCount''))
       (assign_textContent rt ''tokensUsed'' data ''tokensUsed''))
       (\<lambda>w'. (None, on_element ''results'' (classList_add (lit ''show'')) w'))"

definition saveToFirestore_generation :: "firebase \<Rightarrow> jsstr \<Rightarrow> json \<Rightarrow> world \<Rightarrow> world" where
  "saveToFirestore_generation fb prompt result w =
     (if firestore_present fb
      then w\<lparr>added := added w @
             [(lit ''results'',
               \<lparr>rec_type = lit ''generation'', rec_input = prompt, rec_output = result,
                rec_timestamp = ServerTimestamp\<rparr>)]\<rparr>
      else w)"

text \<open>The handler \<open>.catch(console.error)\<close> on the promise of \<open>add\<close>.\<close>

definition add_settled_generation :: "settled \<Rightarrow> world \<Rightarrow> world" where
  "add_settled_generation outcome w =
     (case outcome of
        Fulfilled \<Rightarrow> w
      | Rejected reason \<Rightarrow> console_error [Caught (Rejection reason)] w)"

text \<open>
  \<open>performGeneration\<close> up to the call of \<open>fetch\<close>: either it returns after showing a
  validation error (\<open>None\<close>), or it has issued the request and is suspended with
  \<open>prompt\<close> in scope.
\<close>

definition performGeneration_start :: "runtime \<Rightarrow> world \<Rightarrow> jsstr option \<times> world" where
  "performGeneration_start rt w =
     (let prompt = trim (el_value (document w ''promptText'')) in
      if prompt = [] then (None, showError (lit ''Please enter a prompt'') w)
      else if length prompt < 10
      then (None, showError (lit ''Prompt must be at least 10 characters'') w)
      else
        (let w1 = hideError w;
             w2 = on_element ''results'' (classList_remove (lit ''show'')) w1;
             w3 = on_element ''loading'' (\<lambda>e. e\<lparr>style_display := lit ''block''\<rparr>) w2;
             w4 = on_element ''generateBtn'' (\<lambda>e. e\<lparr>disabled := True\<rparr>) w3;
             w5 = on_element ''regenerateBtn'' (\<lambda>e. e\<lparr>disabled := True\<rparr>) w4
         in (Some prompt, w5\<lparr>fetched := fetched w5 @ [generation_request rt prompt w5]\<rparr>)))"

text \<open>
  The rest of the \<open>try\<close> block, once \<open>fetch\<close> has settled. It runs on the world of that
  moment, which holds whatever other handlers did while the request was in flight.
\<close>

definition performGeneration_try ::
  "runtime \<Rightarrow> firebase \<Rightarrow> jsstr \<Rightarrow> fetch_outcome \<Rightarrow> world \<Rightarrow> exn option \<times> world" where
  "performGeneration_try rt fb prompt outcome w =
     (case outcome of
        Fetch_rejected \<Rightarrow> (Some TypeError, w)
      | Fetch_resolved ok b \<Rightarrow>
          if \<not> ok then (Some (Error (lit ''Generation failed'')), w)
          else
            (case b of
               Body_invalid \<Rightarrow> (Some SyntaxError, w)
             | Body_json data \<Rightarrow>
                 andThen (displayResults_generation rt data w)
                   (\<lambda>w'. (None, saveToFirestore_generation fb prompt data w'))))"

text \<open>The \<open>try\<close> block with its \<open>catch\<close> and \<open>finally\<close>.\<close>

definition performGeneration_resume ::
  "runtime \<Rightarrow> firebase \<Rightarrow> jsstr \<Rightarrow> fetch_outcome \<Rightarrow> world \<Rightarrow> world" where
  "performGeneration_resume rt fb prompt outcome w =
     (let (thrown, w1) = performGeneration_try rt fb prompt outcome w;
          w2 = (case thrown of
                  None \<Rightarrow> w1
                | Some error \<Rightarrow>
                    showError (lit ''Failed to generate text. Please try again.'')
                      (console_error [Text (lit ''Error:''), Caught error] w1));
          w3 = on_element ''loading'' (\<lambda>e. e\<lparr>style_display := lit ''none''\<rparr>) w2;
          w4 = on_element ''generateBtn'' (\<lambda>e. e\<lparr>disabled := False\<rparr>) w3
      in on_element ''regenerateBtn'' (\<lambda>e. e\<lparr>disabled := False\<rparr>) w4)"

text \<open>A click on \<open>generateBtn\<close> or \<open>regenerateBtn\<close>, run to completion.\<close>

definition performGeneration ::
  "runtime \<Rightarrow> firebase \<Rightarrow> fetch_outcome \<Rightarrow> world \<Rightarrow> world" where
  "performGeneration rt fb outcome w =
     (case performGeneration_start rt w of
        (None, w') \<Rightarrow> w'
      | (Some prompt, w') \<Rightarrow> performGeneration_resume rt fb prompt outcome w')"

definition copyBtn_generation :: "settled \<Rightarrow> world \<Rightarrow> world" where
  "copyBtn_generation outcome w =
     copy_then outcome (textContent (document w ''generatedText'')) (lit ''Copy Text'') w"

section \<open>Detection: the script of the detection page\<close>

text \<open>
  A selected file: its MIME type and the text \<open>readAsText\<close> delivers when the read
  succeeds.
\<close>

record js_file =
  file_type :: jsstr
  file_text :: jsstr

text \<open>
  The \<open>change\<close> handler of \<open>fileUpload\<close>; \<open>files[0]\<close> is \<open>undefined\<close> (\<open>None\<close>) when
  nothing is selected. The result names the file handed to \<open>readAsText\<close>, if any.
\<close>

definition fileUpload_change :: "js_file option \<Rightarrow> world \<Rightarrow> js_file option \<times> world" where
  "fileUpload_change selected w =
     (case selected of
        None \<Rightarrow> (None, showError (lit ''Please upload a .txt file'') w)
      | Some f \<Rightarrow>
          if file_type f = lit ''text/plain'' then (Some f, w)
          else (None, showError (lit ''Please upload a .txt file'') w))"

text \<open>
  The \<open>onload\<close> callback of the reader. The text control applies its value
  sanitisation to an assigned value; the counter shows the length read back.
\<close>

definition reader_onload :: "runtime \<Rightarrow> jsstr \<Rightarrow> world \<Rightarrow> world" where
  "reader_onload rt result w =
     (let w1 = on_element ''detectText'' (\<lambda>e. e\<lparr>el_value := sanitize_value rt result\<rparr>) w
      in on_element ''charCount''
           (\<lambda>e. e\<lparr>textContent :=
                   Number_toString rt (Fin (of_nat (length (el_value (document w1 ''detectText'')))))\<rparr>)
           w1)"

text \<open>
  The handler with the read that follows it; a failed read fires no \<open>load\<close> event and
  the script has no \<open>error\<close> handler.
\<close>

definition fileUpload :: "runtime \<Rightarrow> js_file option \<Rightarrow> bool \<Rightarrow> world \<Rightarrow> world" where
  "fileUpload rt selected loads w =
     (case fileUpload_change selected w of
        (None, w') \<Rightarrow> w'
      | (Some f, w') \<Rightarrow> if loads then reader_onload rt (file_text f) w' else w')"

definition detection_request :: "jsstr \<Rightarrow> request" where
  "detection_request text =
     \<lparr>url = lit ''YOUR_CLOUD_FUNCTION_URL/detectAIText'',
      http_method = lit ''POST'',
      content_type = lit ''application/json'',
      body = JObj [(lit ''text'', JStr text)]\<rparr>"

text \<open>The colour of the confidence bar, from the rounded confidence.\<close>

definition bar_color :: "jsnum \<Rightarrow> jsstr" where
  "bar_color confidence =
     (if less_than confidence (Fin 30) then lit ''#4ade80''
      else if less_than confidence (Fin 70) then lit ''#fbbf24''
      else lit ''#ef4444'')"

text \<open>
  The statement \<open>if (data.field) { details += `Label: ${data.field.toFixed(2)}\n`; }\<close>.
\<close>

definition score_line :: "runtime \<Rightarrow> json \<Rightarrow> string \<Rightarrow> jsstr \<Rightarrow> jsstr \<Rightarrow> exn + jsstr" where
  "score_line rt data field label details =
     (case Get data field of
        Inl e \<Rightarrow> Inl e
      | Inr v \<Rightarrow>
          if ToBoolean v
          then (case call_toFixed2 rt v of
                  Inl e \<Rightarrow> Inl e
                | Inr s \<Rightarrow> Inr (details @ label @ s @ [0x0A]))
          else Inr details)"

text \<open>
  The two verdict labels start with an emoji: U+1F916 and U+1F464, each a surrogate
  pair.
\<close>

definition verdict_label :: "bool \<Rightarrow> jsstr" where
  "verdict_label isAI =
     (if isAI then [0xD83E, 0xDD16] @ lit '' AI Generated''
      else [0xD83D, 0xDC64] @ lit '' Human Written'')"

definition displayResults_detection :: "runtime \<Rightarrow> json \<Rightarrow> world \<Rightarrow> exn option \<times> world" where
  "displayResults_detection rt data w =
     (case Get data ''confidence'' of
        Inl e \<Rightarrow> (Some e, w)
      | Inr c \<Rightarrow>
     (case ToNumber rt c of
        Inl e \<Rightarrow> (Some e, w)
      | Inr n \<Rightarrow>
     (case Get data ''isAI'' of
        Inl e \<Rightarrow> (Some e, w)
      | Inr i \<Rightarrow>
     (let confidence = Math_round n;
          isAI = ToBoolean i;
          percent = Number_toString rt confidence @ lit ''%'';
          w1 = on_element ''confidenceValue'' (\<lambda>e. e\<lparr>textContent := percent\<rparr>) w;
          w2 = on_element ''verdict''
                 (\<lambda>e. e\<lparr>textContent := verdict_label isAI,
                         style_color := (if isAI then lit ''#ef4444'' else lit ''#4ade80'')\<rparr>) w1;
          w3 = on_element ''confidenceFill''
                 (\<lambda>e. e\<lparr>style_width := (if css_width_valid rt percent then percent
                                          else style_width e),
                         textContent := percent,
                         style_background := bar_color confidence\<rparr>) w2;
          details =
            lit ''Detection Confidence: '' @ Number_toString rt confidence
            @ lit ''%'' @ [0x0A, 0x0A]
            @ lit ''Verdict: ''
            @ (if isAI then lit ''This text appears to be AI-generated''
               else lit ''This text appears to be human-written'')
            @ [0x0A, 0x0A]
      in
     (case score_line rt data ''perplexity'' (lit ''Perplexity Score: '') details of
        Inl e \<Rightarrow> (Some e, w3)
      | Inr details1 \<Rightarrow>
     (case score_line rt data ''burstiness'' (lit ''Burstiness Score: '') details1 of
        Inl e \<Rightarrow> (Some e, w3)
      | Inr details2 \<Rightarrow>
     (let details3 =
            details2 @ 0x0A
            # lit ''Note: This is a probabilistic analysis and may not be 100% accurate.'';
          w4 = on_element ''analysisDetails'' (\<lambda>e. e\<lparr>textContent := details3\<rparr>) w3
      in (None, on_element ''results'' (classList_add (lit ''show'')) w4))))))))"

definition saveToFirestore_detection :: "firebase \<Rightarrow> jsstr \<Rightarrow> json \<Rightarrow> world \<Rightarrow> world" where
  "saveToFirestore_detection fb text result w =
     (if firestore_present fb
      then w\<lparr>added := added w @
             [(lit ''results'',
               \<lparr>rec_type = lit ''detection'', rec_input = substring0 500 text,
                rec_output = result, rec_timestamp = ServerTimestamp\<rparr>)]\<rparr>
      else w)"

text \<open>The \<open>catch\<close> handler on the promise of \<open>add\<close>.\<close>

definition add_settled_detection :: "settled \<Rightarrow> world \<Rightarrow> world" where
  "add_settled_detection outcome w =
     (case outcome of
        Fulfilled \<Rightarrow> w
      | Rejected reason \<Rightarrow>
          console_error [Text (lit ''Error saving to Firestore:''), Caught (Rejection reason)] w)"

text \<open>The click handler of \<open>detectBtn\<close> up to the call of \<open>fetch\<close>.\<close>

definition detect_start :: "world \<Rightarrow> jsstr option \<times> world" where
  "detect_start w =
     (let text = trim (el_value (document w ''detectText'')) in
      if text = [] then (None, showError (lit ''Please enter some text to analyze'') w)
      else if length text < 50
      then (None, showError (lit ''Text must be at least 50 characters long'') w)
      else
        (let w1 = hideError w;
             w2 = on_element ''results'' (classList_remove (lit ''show'')) w1;
             w3 = on_element ''loading'' (\<lambda>e. e\<lparr>style_display := lit ''block''\<rparr>) w2;
             w4 = on_element ''detectBtn'' (\<lambda>e. e\<lparr>disabled := True\<rparr>) w3
         in (Some text, w4\<lparr>fetched := fetched w4 @ [detection_request text]\<rparr>)))"

definition detect_try ::
  "runtime \<Rightarrow> firebase \<Rightarrow> jsstr \<Rightarrow> fetch_outcome \<Rightarrow> world \<Rightarrow> exn option \<times> world" where
  "detect_try rt fb text outcome w =
     (case outcome of
        Fetch_rejected \<Rightarrow> (Some TypeError, w)
      | Fetch_resolved ok b \<Rightarrow>
          if \<not> ok then (Some (Error (lit ''Failed to analyze text'')), w)
          else
            (case b of
               Body_invalid \<Rightarrow> (Some SyntaxError, w)
             | Body_json data \<Rightarrow>
                 andThen (displayResults_detection rt data w)
                   (\<lambda>w'. (None, saveToFirestore_detection fb text data w'))))"

definition detect_resume ::
  "runtime \<Rightarrow> firebase \<Rightarrow> jsstr \<Rightarrow> fetch_outcome \<Rightarrow> world \<Rightarrow> world" where
  "detect_resume rt fb text outcome w =
     (let (thrown, w1) = detect_try rt fb text outcome w;
          w2 = (case thrown of
                  None \<Rightarrow> w1
                | Some error \<Rightarrow>
                    showError
                      (lit ''An error occurred while analyzing the text. Please try again.'')
                      (console_error [Text (lit ''Error:''), Caught error] w1));
          w3 = on_element ''loading'' (\<lambda>e. e\<lparr>style_display := lit ''none''\<rparr>) w2
      in on_element ''detectBtn'' (\<lambda>e. e\<lparr>disabled := False\<rparr>) w3)"

text \<open>A click on \<open>detectBtn\<close>, run to completion.\<close>

definition detect :: "runtime \<Rightarrow> firebase \<Rightarrow> fetch_outcome \<Rightarrow> world \<Rightarrow> world" where
  "detect rt fb outcome w =
     (case detect_start w of
        (None, w') \<Rightarrow> w'
      | (Some text, w') \<Rightarrow> detect_resume rt fb text outcome w')"

definition copyBtn_detection :: "settled \<Rightarrow> world \<Rightarrow> world" where
  "copyBtn_detection outcome w =
     copy_then outcome
       (lit ''AI Detection Results'' @ [0x0A, 0x0A] @ textContent (document w ''analysisDetails''))
       (lit ''Copy Results'') w"

section \<open>Summarization: the script of the summary page\<close>

definition summary_request :: "runtime \<Rightarrow> jsstr \<Rightarrow> world \<Rightarrow> request" where
  "summary_request rt text w =
     \<lparr>url = lit ''YOUR_CLOUD_FUNCTION_URL/summarizeText'',
      http_method = lit ''POST'',
      content_type = lit ''application/json'',
      body = JObj
        [(lit ''text'', JStr text),
         (lit ''ratio'', json_number (parseFloat rt (el_value (document w ''lengthRatio'')))),
         (lit ''format'', JStr (el_value (document w ''formatType'')))]\<rparr>"

text \<open>
  The statement
  \<open>compressionRatio.textContent = Math.round(data.compressionRatio * 100) + '%'\<close>.
\<close>

definition assign_ratio :: "runtime \<Rightarrow> json \<Rightarrow> world \<Rightarrow> exn option \<times> world" where
  "assign_ratio rt data w =
     (case Get data ''compressionRatio'' of
        Inl e \<Rightarrow> (Some e, w)
      | Inr v \<Rightarrow>
          (case ToNumber rt v of
             Inl e \<Rightarrow> (Some e, w)
           | Inr n \<Rightarrow>
               (None,
                on_element ''compressionRatio''
                  (\<lambda>e. e\<lparr>textContent :=
                          Number_toString rt (Math_round (multiply rt n (Fin 100)))
                          @ lit ''%''\<rparr>) w)))"

definition displayResults_summary :: "runtime \<Rightarrow> json \<Rightarrow> world \<Rightarrow> exn option \<times> world" where
  "displayResults_summary rt data w =
     andThen (andThen (andThen (andThen
       (assign_textContent rt ''summaryResult'' data ''summary'' w)
       (assign_textContent rt ''originalWords'' data ''originalWords''))
       (assign_textContent rt ''summaryWords'' data ''summaryWords''))
       (assign_ratio rt data))
       (\<lambda>w'. (None, on_element ''results'' (classList_add (lit ''show'')) w'))"

definition saveToFirestore_summary :: "firebase \<Rightarrow> jsstr \<Rightarrow> json \<Rightarrow> world \<Rightarrow> world" where
  "saveToFirestore_summary fb text result w =
     (if firestore_present fb
      then w\<lparr>added := added w @
             [(lit ''results'',
               \<lparr>rec_type = lit ''summary'', rec_input = substring0 500 text,
                rec_output = result, rec_timestamp = ServerTimestamp\<rparr>)]\<rparr>
      else w)"

definition add_settled_summary :: "settled \<Rightarrow> world \<Rightarrow> world" where
  "add_settled_summary outcome w =
     (case outcome of
        Fulfilled \<Rightarrow> w
      | Rejected reason \<Rightarrow> console_error [Caught (Rejection reason)] w)"

text \<open>The click handler of \<open>summarizeBtn\<close> up to the call of \<open>fetch\<close>.\<close>

definition summarize_start :: "runtime \<Rightarrow> world \<Rightarrow> jsstr option \<times> world" where
  "summarize_start rt w =
     (let text = trim (el_value (document w ''summaryText'')) in
      if text = [] then (None, showError (lit ''Please enter text to summarize'') w)
      else if length text < 100
      then (None,
            showError
              (lit ''Text must be at least 100 characters for meaningful summarization'') w)
      else
        (let w1 = hideError w;
             w2 = on_element ''results'' (classList_remove (lit ''show'')) w1;
             w3 = on_element ''loading'' (\<lambda>e. e\<lparr>style_display := lit ''block''\<rparr>) w2;
             w4 = on_element ''summarizeBtn'' (\<lambda>e. e\<lparr>disabled := True\<rparr>) w3
         in (Some text, w4\<lparr>fetched := fetched w4 @ [summary_request rt text w4]\<rparr>)))"

definition summarize_try ::
  "runtime \<Rightarrow> firebase \<Rightarrow> jsstr \<Rightarrow> fetch_outcome \<Rightarrow> world \<Rightarrow> exn option \<times> world" where
  "summarize_try rt fb text outcome w =
     (case outcome of
        Fetch_rejected \<Rightarrow> (Some TypeError, w)
      | Fetch_resolved ok b \<Rightarrow>
          if \<not> ok then (Some (Error (lit ''Summarization failed'')), w)
          else
            (case b of
               Body_invalid \<Rightarrow> (Some SyntaxError, w)
             | Body_json data \<Rightarrow>
                 andThen (displayResults_summary rt data w)
                   (\<lambda>w'. (None, saveToFirestore_summary fb text data w'))))"

definition summarize_resume ::
  "runtime \<Rightarrow> firebase \<Rightarrow> jsstr \<Rightarrow> fetch_outcome \<Rightarrow> world \<Rightarrow> world" where
  "summarize_resume rt fb text outcome w =
     (let (thrown, w1) = summarize_try rt fb text outcome w;
          w2 = (case thrown of
                  None \<Rightarrow> w1
                | Some error \<Rightarrow>
                    showError (lit ''Failed to generate summary. Please try again.'')
                      (console_error [Text (lit ''Error:''), Caught error] w1));
          w3 = on_element ''loading'' (\<lambda>e. e\<lparr>style_display := lit ''none''\<rparr>) w2
      in on_element ''summarizeBtn'' (\<lambda>e. e\<lparr>disabled := False\<rparr>) w3)"

text \<open>A click on \<open>summarizeBtn\<close>, run to completion.\<close>

definition summarize :: "runtime \<Rightarrow> firebase \<Rightarrow> fetch_outcome \<Rightarrow> world \<Rightarrow> world" where
  "summarize rt fb outcome w =
     (case summarize_start rt w of
        (None, w') \<Rightarrow> w'
      | (Some text, w') \<Rightarrow> summarize_resume rt fb text outcome w')"

definition copyBtn_summary :: "settled \<Rightarrow> world \<Rightarrow> world" where
  "copyBtn_summary outcome w =
     copy_then outcome (textContent (document w ''summaryResult'')) (lit ''Copy Summary'') w"

section \<open>The write as the scripts evaluate it\<close>

text \<open>
  The three handlers call \<open>saveToFirestore\<close> inside their \<open>try\<close> block, and the
  expression that performs the write can throw before any promise exists: \<open>db\<close> is a
  free variable of the generation and summary scripts (a ReferenceError when no other
  script binds it; the detection script is the only one that declares its own), the
  call \<open>firebase.firestore()\<close> of the detection script and the calls \<open>collection\<close> and
  \<open>add\<close> can throw, and the guard tests only that the member \<open>firestore\<close> is truthy.
  Nothing in the scripts rules this out, so the synchronous outcome of the write
  expression is a parameter here: it returns the promise, after handing the record
  over, or it throws. The handlers above are the case where it returns.
\<close>

datatype store_call = Promise_returned | Thrown exn

definition saveToFirestore_generation_call ::
  "firebase \<Rightarrow> store_call \<Rightarrow> jsstr \<Rightarrow> json \<Rightarrow> world \<Rightarrow> exn option \<times> world" where
  "saveToFirestore_generation_call fb call prompt result w =
     (if firestore_present fb
      then (case call of
              Thrown e \<Rightarrow> (Some e, w)
            | Promise_returned \<Rightarrow> (None, saveToFirestore_generation fb prompt result w))
      else (None, w))"

definition saveToFirestore_detection_call ::
  "firebase \<Rightarrow> store_call \<Rightarrow> jsstr \<Rightarrow> json \<Rightarrow> world \<Rightarrow> exn option \<times> world" where
  "saveToFirestore_detection_call fb call text result w =
     (if firestore_present fb
      then (case call of
              Thrown e \<Rightarrow> (Some e, w)
            | Promise_returned \<Rightarrow> (None, saveToFirestore_detection fb text result w))
      else (None, w))"

definition saveToFirestore_summary_call ::
  "firebase \<Rightarrow> store_call \<Rightarrow> jsstr \<Rightarrow> json \<Rightarrow> world \<Rightarrow> exn option \<times> world" where
  "saveToFirestore_summary_call fb call text result w =
     (if firestore_present fb
      then (case call of
              Thrown e \<Rightarrow> (Some e, w)
            | Promise_returned \<Rightarrow> (None, saveToFirestore_summary fb text result w))
      else (None, w))"

text \<open>
  The \<open>try\<close> block of each handler once \<open>fetch\<close> has settled, with the write as a
  statement that may throw, and the handler around it.
\<close>

definition performGeneration_try_call ::
  "runtime \<Rightarrow> firebase \<Rightarrow> store_call \<Rightarrow> jsstr \<Rightarrow> fetch_outcome \<Rightarrow> world
     \<Rightarrow> exn option \<times> world" where
  "performGeneration_try_call rt fb call prompt outcome w =
     (case outcome of
        Fetch_rejected \<Rightarrow> (Some TypeError, w)
      | Fetch_resolved ok b \<Rightarrow>
          if \<not> ok then (Some (Error (lit ''Generation failed'')), w)
          else
            (case b of
               Body_invalid \<Rightarrow> (Some SyntaxError, w)
             | Body_json data \<Rightarrow>
                 andThen (displayResults_generation rt data w)
                   (saveToFirestore_generation_call fb call prompt data)))"

definition performGeneration_resume_call ::
  "runtime \<Rightarrow> firebase \<Rightarrow> store_call \<Rightarrow> jsstr \<Rightarrow> fetch_outcome \<Rightarrow> world \<Rightarrow> world" where
  "performGeneration_resume_call rt fb call prompt outcome w =
     (let (thrown, w1) = performGeneration_try_call rt fb call prompt outcome w;
          w2 = (case thrown of
                  None \<Rightarrow> w1
                | Some error \<Rightarrow>
                    showError (lit ''Failed to generate text. Please try again.'')
                      (console_error [Text (lit ''Error:''), Caught error] w1));
          w3 = on_element ''loading'' (\<lambda>e. e\<lparr>style_display := lit ''none''\<rparr>) w2;
          w4 = on_element ''generateBtn'' (\<lambda>e. e\<lparr>disabled := False\<rparr>) w3
      in on_element ''regenerateBtn'' (\<lambda>e. e\<lparr>disabled := False\<rparr>) w4)"

definition performGeneration_call ::
  "runtime \<Rightarrow> firebase \<Rightarrow> store_call \<Rightarrow> fetch_outcome \<Rightarrow> world \<Rightarrow> world" where
  "performGeneration_call rt fb call outcome w =
     (case performGeneration_start rt w of
        (None, w') \<Rightarrow> w'
      | (Some prompt, w') \<Rightarrow> performGeneration_resume_call rt fb call prompt outcome w')"

definition detect_try_call ::
  "runtime \<Rightarrow> firebase \<Rightarrow> store_call \<Rightarrow> jsstr \<Rightarrow> fetch_outcome \<Rightarrow> world
     \<Rightarrow> exn option \<times> world" where
  "detect_try_call rt fb call text outcome w =
     (case outcome of
        Fetch_rejected \<Rightarrow> (Some TypeError, w)
      | Fetch_resolved ok b \<Rightarrow>
          if \<not> ok then (Some (Error (lit ''Failed to analyze text'')), w)
          else
            (case b of
               Body_invalid \<Rightarrow> (Some SyntaxError, w)
             | Body_json data \<Rightarrow>
                 andThen (displayResults_detection rt data w)
                   (saveToFirestore_detection_call fb call text data)))"

definition detect_resume_call ::
  "runtime \<Rightarrow> firebase \<Rightarrow> store_call \<Rightarrow> jsstr \<Rightarrow> fetch_outcome \<Rightarrow> world \<Rightarrow> world" where
  "detect_resume_call rt fb call text outcome w =
     (let (thrown, w1) = detect_try_call rt fb call text outcome w;
          w2 = (case thrown of
                  None \<Rightarrow> w1
                | Some error \<Rightarrow>
                    showError
                      (lit ''An error occurred while analyzing the text. Please try again.'')
                      (console_error [Text (lit ''Error:''), Caught error] w1));
          w3 = on_element ''loading'' (\<lambda>e. e\<lparr>style_display := lit ''none''\<rparr>) w2
      in on_element ''detectBtn'' (\<lambda>e. e\<lparr>disabled := False\<rparr>) w3)"

definition detect_call ::
  "runtime \<Rightarrow> firebase \<Rightarrow> store_call \<Rightarrow> fetch_outcome \<Rightarrow> world \<Rightarrow> world" where
  "detect_call rt fb call outcome w =
     (case detect_start w of
        (None, w') \<Rightarrow> w'
      | (Some text, w') \<Rightarrow> detect_resume_call rt fb call text outcome w')"

definition summarize_try_call ::
  "runtime \<Rightarrow> firebase \<Rightarrow> store_call \<Rightarrow> jsstr \<Rightarrow> fetch_outcome \<Rightarrow> world
     \<Rightarrow> exn option \<times> world" where
  "summarize_try_call rt fb call text outcome w =
     (case outcome of
        Fetch_rejected \<Rightarrow> (Some TypeError, w)
      | Fetch_resolved ok b \<Rightarrow>
          if \<not> ok then (Some (Error (lit ''Summarization failed'')), w)
          else
            (case b of
               Body_invalid \<Rightarrow> (Some SyntaxError, w)
             | Body_json data \<Rightarrow>
                 andThen (displayResults_summary rt data w)
                   (saveToFirestore_summary_call fb call text data)))"

definition summarize_resume_call ::
  "runtime \<Rightarrow> firebase \<Rightarrow> store_call \<Rightarrow> jsstr \<Rightarrow> fetch_outcome \<Rightarrow> world \<Rightarrow> world" where
  "summarize_resume_call rt fb call text outcome w =
     (let (thrown, w1) = summarize_try_call rt fb call text outcome w;
          w2 = (case thrown of
                  None \<Rightarrow> w1
                | Some error \<Rightarrow>
                    showError (lit ''Failed to generate summary. Please try again.'')
                      (console_error [Text (lit ''Error:''), Caught error] w1));
          w3 = on_element ''loading'' (\<lambda>e. e\<lparr>style_display := lit ''none''\<rparr>) w2
      in on_element ''summarizeBtn'' (\<lambda>e. e\<lparr>disabled := False\<rparr>) w3)"

definition summarize_call ::
  "runtime \<Rightarrow> firebase \<Rightarrow> store_call \<Rightarrow> fetch_outcome \<Rightarrow> world \<Rightarrow> world" where
  "summarize_call rt fb call outcome w =
     (case summarize_start rt w of
        (None, w') \<Rightarrow> w'
      | (Some text, w') \<Rightarrow> summarize_resume_call rt fb call text outcome w')"

section \<open>Timers and documented response shapes\<close>

text \<open>
  The timer callbacks run in the order they were set (they all have the same delay):
  the first pending timer fires.
\<close>

definition run_timer :: "world \<Rightarrow> world" where
  "run_timer w =
     (case timers w of
        [] \<Rightarrow> w
      | (delay, label) # rest \<Rightarrow> copy_timeout label (w\<lparr>timers := rest\<rparr>))"

text \<open>
  An optional numeric field of a response (\<open>perplexity\<close>, \<open>burstiness\<close>): absent or a
  Number.
\<close>

definition optional_number :: "json option \<Rightarrow> bool" where
  "optional_number v = (case v of None \<Rightarrow> True | Some (JNum _) \<Rightarrow> True | _ \<Rightarrow> False)"

section \<open>Sample pages\<close>

text \<open>
  A page whose elements are all empty, a user typing into a control, and a runtime for
  the examples below. The sample runtime multiplies exactly, accepts every width and
  leaves an assigned value as it is; the examples only use inputs on which a browser
  does the same (an empty control parses to NaN, \<open>0.25 * 100\<close> is exact).
\<close>

definition blank :: element where
  "blank = \<lparr>textContent = [], el_value = [], disabled = False, classList = [],
     style_display = [], style_color = [], style_width = [], style_background = []\<rparr>"

definition blank_world :: world where
  "blank_world = \<lparr>document = (\<lambda>_. blank), fetched = [], console = [], added = [],
     clipboard = None, timers = []\<rparr>"

definition typed :: "string \<Rightarrow> jsstr \<Rightarrow> world \<Rightarrow> world" where
  "typed i v = on_element i (\<lambda>e. e\<lparr>el_value := v\<rparr>)"

definition exact_multiply :: "jsnum \<Rightarrow> jsnum \<Rightarrow> jsnum" where
  "exact_multiply a b = (case (a, b) of (Fin x, Fin y) \<Rightarrow> Fin (x * y) | _ \<Rightarrow> NaN)"

definition demo_runtime :: runtime where
  "demo_runtime =
     \<lparr>number_to_string = (\<lambda>_. []), string_to_number = (\<lambda>_. NaN),
      parseInt = (\<lambda>_. NaN), parseFloat = (\<lambda>_. NaN), multiply = exact_multiply,
      css_width_valid = (\<lambda>_. True), sanitize_value = (\<lambda>s. s)\<rparr>"

text \<open>
  A generation page after an earlier success (a poem on display) with a new prompt
  typed in, and a page holding 60 letters in the detection field and 120 in the
  summary field.
\<close>

definition poem_world :: world where
  "poem_world =
     typed ''promptText'' (lit ''Write a short poem'')
       (on_element ''generatedText'' (\<lambda>e. e\<lparr>textContent := lit ''An old poem''\<rparr>)
         (on_element ''results'' (classList_add (lit ''show'')) blank_world))"

definition essay_world :: world where
  "essay_world =
     typed ''summaryText'' (replicate 120 0x61) (typed ''detectText'' (replicate 60 0x61) blank_world)"

text \<open>Well-formed responses of the three endpoints.\<close>

definition poem_response :: json where
  "poem_response =
     JObj [(lit ''generatedText'', JStr (lit ''Roses are red'')),
           (lit ''wordCount'', JNum (Fin 3)),
           (lit ''tokensUsed'', JNum (Fin 12))]"

definition verdict_response :: json where
  "verdict_response =
     JObj [(lit ''confidence'', JNum (Fin 87.4)),
           (lit ''isAI'', JBool True),
           (lit ''perplexity'', JNum (Fin 12.345))]"

definition summary_response :: json where
  "summary_response =
     JObj [(lit ''summary'', JStr (lit ''Short.'')),
           (lit ''originalWords'', JNum (Fin 120)),
           (lit ''summaryWords'', JNum (Fin 30)),
           (lit ''compressionRatio'', JNum (Fin 0.25))]"

text \<open>
  A detection page whose analysis is on display, and one holding 501 letters in the
  text field.
\<close>

definition details_world :: world where
  "details_world =
     on_element ''analysisDetails''
       (\<lambda>e. e\<lparr>textContent := lit ''Detection Confidence: 87%''\<rparr>) blank_world"

definition long_world :: world where
  "long_world = typed ''detectText'' (replicate 501 0x61) blank_world"

text \<open>
  A page whose copy button carries a given label, a plain-text file and an image.
\<close>

definition labelled :: "jsstr \<Rightarrow> world \<Rightarrow> world" where
  "labelled label = on_element ''copyBtn'' (\<lambda>e. e\<lparr>textContent := label\<rparr>)"

definition text_file :: js_file where
  "text_file = \<lparr>file_type = lit ''text/plain'', file_text = lit ''Dear reader''\<rparr>"

definition image_file :: js_file where
  "image_file = \<lparr>file_type = lit ''image/png'', file_text = []\<rparr>"

section \<open>Properties\<close>

subsection \<open>What the building blocks change\<close>

lemma document_on_element [simp]:
  "document (on_element i f w) = (document w)(i := f (document w i))"
  by (simp add: on_element_def)

lemma rest_on_element [simp]:
  "fetched (on_element i f w) = fetched w"
  "console (on_element i f w) = console w"
  "added (on_element i f w) = added w"
  "clipboard (on_element i f w) = clipboard w"
  "timers (on_element i f w) = timers w"
  by (simp_all add: on_element_def)

lemma classList_add_simps [simp]:
  "t \<in> set (classList (classList_add t e))"
  "textContent (classList_add t e) = textContent e"
  "el_value (classList_add t e) = el_value e"
  "disabled (classList_add t e) = disabled e"
  "style_display (classList_add t e) = style_display e"
  by (simp_all add: classList_add_def)

lemma showError_simps [simp]:
  "fetched (showError m w) = fetched w"
  "added (showError m w) = added w"
  "textContent (document (showError m w) ''errorMsg'') = m"
  "lit ''show'' \<in> set (classList (document (showError m w) ''errorMsg''))"
  "i \<noteq> ''errorMsg'' \<Longrightarrow> document (showError m w) i = document w i"
  by (simp_all add: showError_def)

lemma typed_value [simp]: "el_value (document (typed i v w) i) = v"
  by (simp add: typed_def)

lemma fetched_typed [simp]: "fetched (typed i v w) = fetched w"
  by (simp add: typed_def)

lemma trim_poem: "trim (lit ''   poem     '') = lit ''poem''"
  by (simp add: trim_def lit_def is_space_def)

lemma trim_too_short: "trim (lit ''too short'') = lit ''too short''"
  by (simp add: trim_def lit_def is_space_def)

lemma trim_id: "s \<noteq> [] \<Longrightarrow> \<not> is_space (hd s) \<Longrightarrow> \<not> is_space (last s) \<Longrightarrow> trim s = s"
proof -
  assume a: "s \<noteq> []" "\<not> is_space (hd s)" "\<not> is_space (last s)"
  then have 1: "dropWhile is_space s = s"
    by (cases s) simp_all
  from a have 2: "dropWhile is_space (rev s) = rev s"
    by (cases "rev s") (simp_all add: last_rev [symmetric] hd_rev)
  show ?thesis by (simp add: trim_def 1 2)
qed

lemma classList_remove_simps [simp]:
  "t \<notin> set (classList (classList_remove t e))"
  "textContent (classList_remove t e) = textContent e"
  "el_value (classList_remove t e) = el_value e"
  "disabled (classList_remove t e) = disabled e"
  "style_display (classList_remove t e) = style_display e"
  by (simp_all add: classList_remove_def)

lemma hideError_simps [simp]:
  "fetched (hideError w) = fetched w"
  "added (hideError w) = added w"
  "i \<noteq> ''errorMsg'' \<Longrightarrow> document (hideError w) i = document w i"
  by (simp_all add: hideError_def)

lemma console_error_simps [simp]:
  "document (console_error a w) = document w"
  "fetched (console_error a w) = fetched w"
  "added (console_error a w) = added w"
  by (simp_all add: console_error_def)

lemma performGeneration_start_valid:
  "10 \<le> length (trim (el_value (document w ''promptText''))) \<Longrightarrow>
   performGeneration_start rt w =
     (let prompt = trim (el_value (document w ''promptText''));
          w5 = on_element ''regenerateBtn'' (\<lambda>e. e\<lparr>disabled := True\<rparr>)
                (on_element ''generateBtn'' (\<lambda>e. e\<lparr>disabled := True\<rparr>)
                  (on_element ''loading'' (\<lambda>e. e\<lparr>style_display := lit ''block''\<rparr>)
                    (on_element ''results'' (classList_remove (lit ''show'')) (hideError w))))
      in (Some prompt, w5\<lparr>fetched := fetched w5 @ [generation_request rt prompt w5]\<rparr>))"
  by (auto simp add: performGeneration_start_def Let_def)

lemma detect_start_valid:
  "50 \<le> length (trim (el_value (document w ''detectText''))) \<Longrightarrow>
   detect_start w =
     (let text = trim (el_value (document w ''detectText''));
          w4 = on_element ''detectBtn'' (\<lambda>e. e\<lparr>disabled := True\<rparr>)
                  (on_element ''loading'' (\<lambda>e. e\<lparr>style_display := lit ''block''\<rparr>)
                    (on_element ''results'' (classList_remove (lit ''show'')) (hideError w)))
      in (Some text, w4\<lparr>fetched := fetched w4 @ [detection_request text]\<rparr>))"
  by (auto simp add: detect_start_def Let_def)

lemma summarize_start_valid:
  "100 \<le> length (trim (el_value (document w ''summaryText''))) \<Longrightarrow>
   summarize_start rt w =
     (let text = trim (el_value (document w ''summaryText''));
          w4 = on_element ''summarizeBtn'' (\<lambda>e. e\<lparr>disabled := True\<rparr>)
                  (on_element ''loading'' (\<lambda>e. e\<lparr>style_display := lit ''block''\<rparr>)
                    (on_element ''results'' (classList_remove (lit ''show'')) (hideError w)))
      in (Some text, w4\<lparr>fetched := fetched w4 @ [summary_request rt text w4]\<rparr>))"
  by (auto simp add: summarize_start_def Let_def)

lemma performGeneration_resume_failed:
  "performGeneration_resume rt fb prompt (Fetch_resolved False b) w =
     on_element ''regenerateBtn'' (\<lambda>e. e\<lparr>disabled := False\<rparr>)
       (on_element ''generateBtn'' (\<lambda>e. e\<lparr>disabled := False\<rparr>)
         (on_element ''loading'' (\<lambda>e. e\<lparr>style_display := lit ''none''\<rparr>)
           (showError (lit ''Failed to generate text. Please try again.'')
             (console_error [Text (lit ''Error:''), Caught (Error (lit ''Generation failed''))] w))))"
  by (simp add: performGeneration_resume_def performGeneration_try_def)

lemma detect_resume_failed:
  "detect_resume rt fb text (Fetch_resolved False b) w =
     on_element ''detectBtn'' (\<lambda>e. e\<lparr>disabled := False\<rparr>)
       (on_element ''loading'' (\<lambda>e. e\<lparr>style_display := lit ''none''\<rparr>)
         (showError (lit ''An error occurred while analyzing the text. Please try again.'')
           (console_error [Text (lit ''Error:''), Caught (Error (lit ''Failed to analyze text''))] w)))"
  by (simp add: detect_resume_def detect_try_def)

lemma summarize_resume_failed:
  "summarize_resume rt fb text (Fetch_resolved False b) w =
     on_element ''summarizeBtn'' (\<lambda>e. e\<lparr>disabled := False\<rparr>)
       (on_element ''loading'' (\<lambda>e. e\<lparr>style_display := lit ''none''\<rparr>)
         (showError (lit ''Failed to generate summary. Please try again.'')
           (console_error [Text (lit ''Error:''), Caught (Error (lit ''Summarization failed''))] w)))"
  by (simp add: summarize_resume_def summarize_try_def)

lemma trim_replicate_a [simp]: "0 < n \<Longrightarrow> trim (replicate n (0x61 :: 16 word)) = replicate n 0x61"
  by (rule trim_id) (simp_all add: is_space_def)

lemma trim_poem_world [simp]:
  "trim (el_value (document poem_world ''promptText'')) = lit ''Write a short poem''"
  unfolding poem_world_def typed_value
  by (rule trim_id) (simp_all add: lit_def is_space_def)

lemma essay_world_values [simp]:
  "el_value (document essay_world ''detectText'') = replicate 60 0x61"
  "el_value (document essay_world ''summaryText'') = replicate 120 0x61"
  by (simp_all add: essay_world_def typed_def)

subsection \<open>The handlers on an input that passes validation\<close>

lemma performGeneration_valid:
  "10 \<le> length (trim (el_value (document w ''promptText''))) \<Longrightarrow>
   performGeneration rt fb out w =
     performGeneration_resume rt fb (trim (el_value (document w ''promptText''))) out
       (snd (performGeneration_start rt w))"
  by (simp add: performGeneration_def performGeneration_start_valid Let_def)

lemma detect_valid:
  "50 \<le> length (trim (el_value (document w ''detectText''))) \<Longrightarrow>
   detect rt fb out w =
     detect_resume rt fb (trim (el_value (document w ''detectText''))) out (snd (detect_start w))"
  by (simp add: detect_def detect_start_valid Let_def)

lemma summarize_valid:
  "100 \<le> length (trim (el_value (document w ''summaryText''))) \<Longrightarrow>
   summarize rt fb out w =
     summarize_resume rt fb (trim (el_value (document w ''summaryText''))) out
       (snd (summarize_start rt w))"
  by (simp add: summarize_def summarize_start_valid Let_def)

lemma finally_generation:
  "style_display (document (performGeneration_resume rt fb p out w) ''loading'') = lit ''none''
   \<and> \<not> disabled (document (performGeneration_resume rt fb p out w) ''generateBtn'')
   \<and> \<not> disabled (document (performGeneration_resume rt fb p out w) ''regenerateBtn'')"
  by (simp add: performGeneration_resume_def Let_def split: prod.splits)

lemma finally_detection:
  "style_display (document (detect_resume rt fb p out w) ''loading'') = lit ''none''
   \<and> \<not> disabled (document (detect_resume rt fb p out w) ''detectBtn'')"
  by (simp add: detect_resume_def Let_def split: prod.splits)

lemma finally_summary:
  "style_display (document (summarize_resume rt fb p out w) ''loading'') = lit ''none''
   \<and> \<not> disabled (document (summarize_resume rt fb p out w) ''summarizeBtn'')"
  by (simp add: summarize_resume_def Let_def split: prod.splits)

subsection \<open>Validation\<close>

text \<open>
  Claim C1. In each of the three flows, when the trimmed input is empty or shorter than
  the flow's minimum (10 code units for generation, 50 for detection, 100 for
  summarization), a click on the submit button does nothing but show the validation
  message in \<open>errorMsg\<close>: the handler returns before \<open>fetch\<close> and the list of requests is
  what it was.
\<close>

theorem validation_blocks_submission:
  assumes "length (trim (el_value (document wg ''promptText''))) < 10"
    and "length (trim (el_value (document wd ''detectText''))) < 50"
    and "length (trim (el_value (document ws ''summaryText''))) < 100"
  shows "performGeneration rt fb out wg =
           showError (if trim (el_value (document wg ''promptText'')) = []
                      then lit ''Please enter a prompt''
                      else lit ''Prompt must be at least 10 characters'') wg
       \<and> fetched (performGeneration rt fb out wg) = fetched wg
       \<and> fst (performGeneration_start rt wg) = None
       \<and> lit ''show'' \<in> set (classList (document (performGeneration rt fb out wg) ''errorMsg''))
       \<and> detect rt fb out wd =
           showError (if trim (el_value (document wd ''detectText'')) = []
                      then lit ''Please enter some text to analyze''
                      else lit ''Text must be at least 50 characters long'') wd
       \<and> fetched (detect rt fb out wd) = fetched wd
       \<and> fst (detect_start wd) = None
       \<and> lit ''show'' \<in> set (classList (document (detect rt fb out wd) ''errorMsg''))
       \<and> summarize rt fb out ws =
           showError (if trim (el_value (document ws ''summaryText'')) = []
                      then lit ''Please enter text to summarize''
                      else lit ''Text must be at least 100 characters for meaningful summarization'') ws
       \<and> fetched (summarize rt fb out ws) = fetched ws
       \<and> fst (summarize_start rt ws) = None
       \<and> lit ''show'' \<in> set (classList (document (summarize rt fb out ws) ''errorMsg''))"
proof -
  have g: "performGeneration_start rt wg =
        (None, showError (if trim (el_value (document wg ''promptText'')) = []
                      then lit ''Please enter a prompt''
                      else lit ''Prompt must be at least 10 characters'') wg)"
    using assms(1) by (simp add: performGeneration_start_def Let_def)
  have d: "detect_start wd =
        (None, showError (if trim (el_value (document wd ''detectText'')) = []
                      then lit ''Please enter some text to analyze''
                      else lit ''Text must be at least 50 characters long'') wd)"
    using assms(2) by (simp add: detect_start_def Let_def)
  have s: "summarize_start rt ws =
        (None, showError (if trim (el_value (document ws ''summaryText'')) = []
                      then lit ''Please enter text to summarize''
                      else lit ''Text must be at least 100 characters for meaningful summarization'') ws)"
    using assms(3) by (simp add: summarize_start_def Let_def)
  show ?thesis
    by (simp add: performGeneration_def detect_def summarize_def g d s)
qed

text \<open>
  The hypotheses of C1 at three inputs: a prompt that is twelve code units long but
  four once trimmed, a nine-unit text for detection, and an empty summary field.
\<close>

theorem validation_blocks_submission_witness:
  "length (trim (el_value (document (typed ''promptText'' (lit ''   poem     '') blank_world)
      ''promptText''))) < 10
   \<and> length (trim (el_value (document (typed ''detectText'' (lit ''too short'') blank_world)
      ''detectText''))) < 50
   \<and> length (trim (el_value (document blank_world ''summaryText''))) < 100
   \<and> textContent (document
        (performGeneration demo_runtime (Firebase True) Fetch_rejected
           (typed ''promptText'' (lit ''   poem     '') blank_world)) ''errorMsg'')
       = lit ''Prompt must be at least 10 characters''
   \<and> fetched (performGeneration demo_runtime (Firebase True) Fetch_rejected
           (typed ''promptText'' (lit ''   poem     '') blank_world)) = []
   \<and> textContent (document
        (detect demo_runtime (Firebase True) Fetch_rejected
           (typed ''detectText'' (lit ''too short'') blank_world)) ''errorMsg'')
       = lit ''Text must be at least 50 characters long''
   \<and> fetched (detect demo_runtime (Firebase True) Fetch_rejected
           (typed ''detectText'' (lit ''too short'') blank_world)) = []
   \<and> textContent (document
        (summarize demo_runtime (Firebase True) Fetch_rejected blank_world) ''errorMsg'')
       = lit ''Please enter text to summarize''
   \<and> fetched (summarize demo_runtime (Firebase True) Fetch_rejected blank_world) = []"
proof -
  have g: "length (trim (el_value (document (typed ''promptText'' (lit ''   poem     '')
      blank_world) ''promptText''))) < 10"
    by (simp add: trim_poem) (simp add: lit_def)
  have d: "length (trim (el_value (document (typed ''detectText'' (lit ''too short'')
      blank_world) ''detectText''))) < 50"
    by (simp add: trim_too_short) (simp add: lit_def)
  have e: "trim (el_value (document blank_world ''summaryText'')) = []"
    by (simp add: blank_world_def blank_def trim_def)
  have s: "length (trim (el_value (document blank_world ''summaryText''))) < 100"
    by (simp add: e)
  have p: "lit ''poem'' \<noteq> []" "lit ''too short'' \<noteq> []"
    by (simp_all add: lit_def)
  have b: "fetched blank_world = []"
    by (simp add: blank_world_def)
  from validation_blocks_submission [OF g d s, of demo_runtime "Firebase True" Fetch_rejected]
  show ?thesis
    using g d s by (simp add: trim_poem trim_too_short e p b)
qed

subsection \<open>A response with a non-success status\<close>

text \<open>
  Claim C2, as stated, fails where it says that the result display elements are as they
  were before the submission: the handler removes the class \<open>show\<close> from the \<open>results\<close>
  container before it calls \<open>fetch\<close> and the error path never adds it again. On the
  sample generation page, whose results are on display, a response with a non-success
  status leaves the container without the class.
\<close>

theorem failed_response_hides_results:
  "lit ''show'' \<in> set (classList (document poem_world ''results''))
   \<and> lit ''show'' \<notin> set (classList (document
        (performGeneration demo_runtime (Firebase True) (Fetch_resolved False Body_invalid)
           poem_world) ''results''))"
proof -
  have g: "10 \<le> length (trim (el_value (document poem_world ''promptText'')))"
    by (simp add: lit_def)
  have "lit ''show'' \<in> set (classList (document poem_world ''results''))"
    by (simp add: poem_world_def typed_def)
  moreover have "document
        (performGeneration demo_runtime (Firebase True) (Fetch_resolved False Body_invalid)
           poem_world) ''results'' = classList_remove (lit ''show'') (document poem_world ''results'')"
    using g
    by (simp add: performGeneration_def performGeneration_start_valid Let_def
        performGeneration_resume_failed)
  ultimately show ?thesis by simp
qed

text \<open>
  Claim C2, amended. In each flow, when the input passes validation and the response has
  a non-success status, \<open>errorMsg\<close> shows the flow's generic message, every named output
  element (text, classes, style) is what it was before the click, and the \<open>results\<close>
  container is what it was before the click with the class \<open>show\<close> removed.
\<close>

theorem failed_response_keeps_outputs:
  assumes "10 \<le> length (trim (el_value (document wg ''promptText'')))"
    and "50 \<le> length (trim (el_value (document wd ''detectText'')))"
    and "100 \<le> length (trim (el_value (document ws ''summaryText'')))"
  shows "(let G = performGeneration rt fb (Fetch_resolved False b) wg;
              D = detect rt fb (Fetch_resolved False b) wd;
              S = summarize rt fb (Fetch_resolved False b) ws in
           textContent (document G ''errorMsg'') = lit ''Failed to generate text. Please try again.''
         \<and> lit ''show'' \<in> set (classList (document G ''errorMsg''))
         \<and> document G ''generatedText'' = document wg ''generatedText''
         \<and> document G ''wordCount'' = document wg ''wordCount''
         \<and> document G ''tokensUsed'' = document wg ''tokensUsed''
         \<and> document G ''results'' = classList_remove (lit ''show'') (document wg ''results'')
         \<and> textContent (document D ''errorMsg'')
             = lit ''An error occurred while analyzing the text. Please try again.''
         \<and> lit ''show'' \<in> set (classList (document D ''errorMsg''))
         \<and> document D ''confidenceValue'' = document wd ''confidenceValue''
         \<and> document D ''verdict'' = document wd ''verdict''
         \<and> document D ''confidenceFill'' = document wd ''confidenceFill''
         \<and> document D ''analysisDetails'' = document wd ''analysisDetails''
         \<and> document D ''results'' = classList_remove (lit ''show'') (document wd ''results'')
         \<and> textContent (document S ''errorMsg'')
             = lit ''Failed to generate summary. Please try again.''
         \<and> lit ''show'' \<in> set (classList (document S ''errorMsg''))
         \<and> document S ''summaryResult'' = document ws ''summaryResult''
         \<and> document S ''originalWords'' = document ws ''originalWords''
         \<and> document S ''summaryWords'' = document ws ''summaryWords''
         \<and> document S ''compressionRatio'' = document ws ''compressionRatio''
         \<and> document S ''results'' = classList_remove (lit ''show'') (document ws ''results''))"
proof -
  have g: "performGeneration rt fb (Fetch_resolved False b) wg =
      performGeneration_resume rt fb (trim (el_value (document wg ''promptText'')))
        (Fetch_resolved False b) (snd (performGeneration_start rt wg))"
    using assms(1) by (simp add: performGeneration_def performGeneration_start_valid Let_def)
  have d: "detect rt fb (Fetch_resolved False b) wd =
      detect_resume rt fb (trim (el_value (document wd ''detectText'')))
        (Fetch_resolved False b) (snd (detect_start wd))"
    using assms(2) by (simp add: detect_def detect_start_valid Let_def)
  have s: "summarize rt fb (Fetch_resolved False b) ws =
      summarize_resume rt fb (trim (el_value (document ws ''summaryText'')))
        (Fetch_resolved False b) (snd (summarize_start rt ws))"
    using assms(3) by (simp add: summarize_def summarize_start_valid Let_def)
  have G: "textContent (document (performGeneration rt fb (Fetch_resolved False b) wg) ''errorMsg'')
        = lit ''Failed to generate text. Please try again.''
      \<and> lit ''show'' \<in> set (classList (document (performGeneration rt fb (Fetch_resolved False b) wg) ''errorMsg''))
      \<and> document (performGeneration rt fb (Fetch_resolved False b) wg) ''generatedText'' = document wg ''generatedText''
      \<and> document (performGeneration rt fb (Fetch_resolved False b) wg) ''wordCount'' = document wg ''wordCount''
      \<and> document (performGeneration rt fb (Fetch_resolved False b) wg) ''tokensUsed'' = document wg ''tokensUsed''
      \<and> document (performGeneration rt fb (Fetch_resolved False b) wg) ''results''
          = classList_remove (lit ''show'') (document wg ''results'')"
    unfolding g using assms(1)
    by (simp add: performGeneration_start_valid Let_def performGeneration_resume_failed)
  have D: "textContent (document (detect rt fb (Fetch_resolved False b) wd) ''errorMsg'')
        = lit ''An error occurred while analyzing the text. Please try again.''
      \<and> lit ''show'' \<in> set (classList (document (detect rt fb (Fetch_resolved False b) wd) ''errorMsg''))
      \<and> document (detect rt fb (Fetch_resolved False b) wd) ''confidenceValue'' = document wd ''confidenceValue''
      \<and> document (detect rt fb (Fetch_resolved False b) wd) ''verdict'' = document wd ''verdict''
      \<and> document (detect rt fb (Fetch_resolved False b) wd) ''confidenceFill'' = document wd ''confidenceFill''
      \<and> document (detect rt fb (Fetch_resolved False b) wd) ''analysisDetails'' = document wd ''analysisDetails''
      \<and> document (detect rt fb (Fetch_resolved False b) wd) ''results''
          = classList_remove (lit ''show'') (document wd ''results'')"
    unfolding d using assms(2)
    by (simp add: detect_start_valid Let_def detect_resume_failed)
  have S: "textContent (document (summarize rt fb (Fetch_resolved False b) ws) ''errorMsg'')
        = lit ''Failed to generate summary. Please try again.''
      \<and> lit ''show'' \<in> set (classList (document (summarize rt fb (Fetch_resolved False b) ws) ''errorMsg''))
      \<and> document (summarize rt fb (Fetch_resolved False b) ws) ''summaryResult'' = document ws ''summaryResult''
      \<and> document (summarize rt fb (Fetch_resolved False b) ws) ''originalWords'' = document ws ''originalWords''
      \<and> document (summarize rt fb (Fetch_resolved False b) ws) ''summaryWords'' = document ws ''summaryWords''
      \<and> document (summarize rt fb (Fetch_resolved False b) ws) ''compressionRatio'' = document ws ''compressionRatio''
      \<and> document (summarize rt fb (Fetch_resolved False b) ws) ''results''
          = classList_remove (lit ''show'') (document ws ''results'')"
    unfolding s using assms(3)
    by (simp add: summarize_start_valid Let_def summarize_resume_failed)
  from G D S show ?thesis
    unfolding Let_def by blast
qed

text \<open>The hypotheses of the amended C2 on the two sample pages.\<close>

theorem failed_response_keeps_outputs_witness:
  "10 \<le> length (trim (el_value (document poem_world ''promptText'')))
   \<and> 50 \<le> length (trim (el_value (document essay_world ''detectText'')))
   \<and> 100 \<le> length (trim (el_value (document essay_world ''summaryText'')))
   \<and> textContent (document
        (performGeneration demo_runtime (Firebase True) (Fetch_resolved False Body_invalid)
           poem_world) ''errorMsg'') = lit ''Failed to generate text. Please try again.''
   \<and> textContent (document
        (performGeneration demo_runtime (Firebase True) (Fetch_resolved False Body_invalid)
           poem_world) ''generatedText'') = lit ''An old poem''
   \<and> textContent (document
        (detect demo_runtime (Firebase True) (Fetch_resolved False Body_invalid)
           essay_world) ''errorMsg'')
       = lit ''An error occurred while analyzing the text. Please try again.''
   \<and> textContent (document
        (summarize demo_runtime (Firebase True) (Fetch_resolved False Body_invalid)
           essay_world) ''errorMsg'') = lit ''Failed to generate summary. Please try again.''"
proof -
  have g: "10 \<le> length (trim (el_value (document poem_world ''promptText'')))"
    by (simp add: lit_def)
  have d: "50 \<le> length (trim (el_value (document essay_world ''detectText'')))"
    by simp
  have s: "100 \<le> length (trim (el_value (document essay_world ''summaryText'')))"
    by simp
  have t: "textContent (document poem_world ''generatedText'') = lit ''An old poem''"
    by (simp add: poem_world_def typed_def)
  from failed_response_keeps_outputs [OF g d s, of demo_runtime "Firebase True" Body_invalid]
  show ?thesis
    using g d s t unfolding Let_def by simp
qed

subsection \<open>The \<open>finally\<close> block\<close>

text \<open>
  Claim C9. In each flow, whatever \<open>fetch\<close> and \<open>response.json()\<close> deliver and whether
  or not rendering throws, when the handler of a submission that passed validation
  completes, \<open>loading\<close> has \<open>display\<close> \<open>none\<close> and the submit buttons are enabled. The
  same holds for the part of the handler that runs after \<open>fetch\<close> has settled, from any
  world and with any captured text.
\<close>

theorem loading_reset_on_completion:
  assumes "10 \<le> length (trim (el_value (document wg ''promptText'')))"
    and "50 \<le> length (trim (el_value (document wd ''detectText'')))"
    and "100 \<le> length (trim (el_value (document ws ''summaryText'')))"
  shows "style_display (document (performGeneration rt fb out wg) ''loading'') = lit ''none''
     \<and> \<not> disabled (document (performGeneration rt fb out wg) ''generateBtn'')
     \<and> \<not> disabled (document (performGeneration rt fb out wg) ''regenerateBtn'')
     \<and> style_display (document (detect rt fb out wd) ''loading'') = lit ''none''
     \<and> \<not> disabled (document (detect rt fb out wd) ''detectBtn'')
     \<and> style_display (document (summarize rt fb out ws) ''loading'') = lit ''none''
     \<and> \<not> disabled (document (summarize rt fb out ws) ''summarizeBtn'')
     \<and> style_display (document (performGeneration_resume rt fb t out w) ''loading'') = lit ''none''
     \<and> \<not> disabled (document (performGeneration_resume rt fb t out w) ''generateBtn'')
     \<and> \<not> disabled (document (performGeneration_resume rt fb t out w) ''regenerateBtn'')
     \<and> style_display (document (detect_resume rt fb t out w) ''loading'') = lit ''none''
     \<and> \<not> disabled (document (detect_resume rt fb t out w) ''detectBtn'')
     \<and> style_display (document (summarize_resume rt fb t out w) ''loading'') = lit ''none''
     \<and> \<not> disabled (document (summarize_resume rt fb t out w) ''summarizeBtn'')"
  using assms finally_generation finally_detection finally_summary
  by (simp add: performGeneration_valid detect_valid summarize_valid)

text \<open>
  The hypotheses of C9 on the sample pages, with a response \<open>null\<close> (rendering throws),
  a rejected \<open>fetch\<close> and a non-success status.
\<close>

theorem loading_reset_on_completion_witness:
  "10 \<le> length (trim (el_value (document poem_world ''promptText'')))
   \<and> 50 \<le> length (trim (el_value (document essay_world ''detectText'')))
   \<and> 100 \<le> length (trim (el_value (document essay_world ''summaryText'')))
   \<and> style_display (document
        (performGeneration demo_runtime (Firebase True) (Fetch_resolved True (Body_json JNull))
           poem_world) ''loading'') = lit ''none''
   \<and> \<not> disabled (document
        (performGeneration demo_runtime (Firebase True) (Fetch_resolved True (Body_json JNull))
           poem_world) ''generateBtn'')
   \<and> style_display (document
        (detect demo_runtime (Firebase True) Fetch_rejected essay_world) ''loading'') = lit ''none''
   \<and> \<not> disabled (document
        (summarize demo_runtime (Firebase True) (Fetch_resolved False Body_invalid) essay_world)
          ''summarizeBtn'')"
proof -
  have g: "10 \<le> length (trim (el_value (document poem_world ''promptText'')))"
    by (simp add: lit_def)
  have d: "50 \<le> length (trim (el_value (document essay_world ''detectText'')))"
    by simp
  have s: "100 \<le> length (trim (el_value (document essay_world ''summaryText'')))"
    by simp
  from loading_reset_on_completion [OF g d s, of demo_runtime "Firebase True"
      "Fetch_resolved True (Body_json JNull)"]
    loading_reset_on_completion [OF g d s, of demo_runtime "Firebase True" Fetch_rejected]
    loading_reset_on_completion [OF g d s, of demo_runtime "Firebase True"
      "Fetch_resolved False Body_invalid"]
  show ?thesis
    using g d s by simp
qed

subsection \<open>Rendering a well-formed response\<close>

lemma saveToFirestore_document [simp]:
  "document (saveToFirestore_generation fb t d w) = document w"
  "document (saveToFirestore_detection fb t d w) = document w"
  "document (saveToFirestore_summary fb t d w) = document w"
  by (simp_all add: saveToFirestore_generation_def saveToFirestore_detection_def
      saveToFirestore_summary_def)

lemma DOMString_simps [simp]:
  "DOMString rt (Some (JStr s)) = Inr s"
  "DOMString rt (Some (JNum n)) = Inr (Number_toString rt n)"
  by (simp_all add: DOMString_def)

lemma Get_present: "Get data f = Inr (Some v) \<Longrightarrow> \<exists>kvs. data = JObj kvs"
  by (cases data) (simp_all add: Get_def)

lemma Get_object [simp]: "Get (JObj kvs) f = Inr (map_of kvs (lit f))"
  by (simp add: Get_def)

lemma score_line_optional:
  "Get data f = Inr p \<Longrightarrow> optional_number p \<Longrightarrow>
   score_line rt data f l d =
     Inr (d @ (if ToBoolean p
               then l @ (case p of Some (JNum x) \<Rightarrow> toFixed2 rt x | _ \<Rightarrow> []) @ [0x0A]
               else []))"
  by (auto simp add: score_line_def call_toFixed2_def optional_number_def ToBoolean_def
      split: option.splits json.splits)

lemma displayResults_generation_ok:
  assumes "Get data ''generatedText'' = Inr (Some v1)" "DOMString rt (Some v1) = Inr s1"
    and "Get data ''wordCount'' = Inr (Some v2)" "DOMString rt (Some v2) = Inr s2"
    and "Get data ''tokensUsed'' = Inr (Some v3)" "DOMString rt (Some v3) = Inr s3"
  shows "displayResults_generation rt data w =
     (None, on_element ''results'' (classList_add (lit ''show''))
        (on_element ''tokensUsed'' (\<lambda>e. e\<lparr>textContent := s3\<rparr>)
          (on_element ''wordCount'' (\<lambda>e. e\<lparr>textContent := s2\<rparr>)
            (on_element ''generatedText'' (\<lambda>e. e\<lparr>textContent := s1\<rparr>) w))))"
  by (simp add: displayResults_generation_def assign_textContent_def andThen_def assms)

lemma displayResults_summary_ok:
  assumes "Get data ''summary'' = Inr (Some v1)" "DOMString rt (Some v1) = Inr s1"
    and "Get data ''originalWords'' = Inr (Some v2)" "DOMString rt (Some v2) = Inr s2"
    and "Get data ''summaryWords'' = Inr (Some v3)" "DOMString rt (Some v3) = Inr s3"
    and "Get data ''compressionRatio'' = Inr (Some (JNum r))"
  shows "displayResults_summary rt data w =
     (None, on_element ''results'' (classList_add (lit ''show''))
        (on_element ''compressionRatio''
           (\<lambda>e. e\<lparr>textContent :=
               Number_toString rt (Math_round (multiply rt r (Fin 100))) @ lit ''%''\<rparr>)
        (on_element ''summaryWords'' (\<lambda>e. e\<lparr>textContent := s3\<rparr>)
          (on_element ''originalWords'' (\<lambda>e. e\<lparr>textContent := s2\<rparr>)
            (on_element ''summaryResult'' (\<lambda>e. e\<lparr>textContent := s1\<rparr>) w)))))"
  by (simp add: displayResults_summary_def assign_textContent_def assign_ratio_def andThen_def
      ToNumber_def assms)

lemma displayResults_detection_ok:
  assumes "Get data ''confidence'' = Inr (Some (JNum n))"
    and "Get data ''perplexity'' = Inr pp" "optional_number pp"
    and "Get data ''burstiness'' = Inr bb" "optional_number bb"
  shows "\<exists>i details. Get data ''isAI'' = Inr i \<and> displayResults_detection rt data w =
     (None, on_element ''results'' (classList_add (lit ''show''))
        (on_element ''analysisDetails'' (\<lambda>e. e\<lparr>textContent := details\<rparr>)
        (on_element ''confidenceFill''
                 (\<lambda>e. e\<lparr>style_width :=
                           (if css_width_valid rt (Number_toString rt (Math_round n) @ lit ''%'')
                            then Number_toString rt (Math_round n) @ lit ''%''
                            else style_width e),
                         textContent := Number_toString rt (Math_round n) @ lit ''%'',
                         style_background := bar_color (Math_round n)\<rparr>)
        (on_element ''verdict''
                 (\<lambda>e. e\<lparr>textContent := verdict_label (ToBoolean i),
                         style_color := (if ToBoolean i then lit ''#ef4444'' else lit ''#4ade80'')\<rparr>)
        (on_element ''confidenceValue''
           (\<lambda>e. e\<lparr>textContent := Number_toString rt (Math_round n) @ lit ''%''\<rparr>) w)))))"
proof -
  from Get_present [OF assms(1)] obtain kvs where data: "data = JObj kvs" by blast
  define i where "i = map_of kvs (lit ''isAI'')"
  have gi: "Get data ''isAI'' = Inr i" by (simp add: data i_def)
  define details where "details =
            lit ''Detection Confidence: '' @ Number_toString rt (Math_round n)
            @ lit ''%'' @ [0x0A, 0x0A]
            @ lit ''Verdict: ''
            @ (if ToBoolean i then lit ''This text appears to be AI-generated''
               else lit ''This text appears to be human-written'')
            @ [0x0A :: 16 word, 0x0A]"
  note sl = score_line_optional [OF assms(2,3)] score_line_optional [OF assms(4,5)]
  define D where "D = details
      @ (if ToBoolean pp
         then lit ''Perplexity Score: ''
              @ (case pp of Some (JNum x) \<Rightarrow> toFixed2 rt x | _ \<Rightarrow> []) @ [0x0A]
         else [])
      @ (if ToBoolean bb
         then lit ''Burstiness Score: ''
              @ (case bb of Some (JNum x) \<Rightarrow> toFixed2 rt x | _ \<Rightarrow> []) @ [0x0A]
         else [])
      @ 0x0A # lit ''Note: This is a probabilistic analysis and may not be 100% accurate.''"
  have "displayResults_detection rt data w =
     (None, on_element ''results'' (classList_add (lit ''show''))
        (on_element ''analysisDetails'' (\<lambda>e. e\<lparr>textContent := D\<rparr>)
        (on_element ''confidenceFill''
                 (\<lambda>e. e\<lparr>style_width :=
                           (if css_width_valid rt (Number_toString rt (Math_round n) @ lit ''%'')
                            then Number_toString rt (Math_round n) @ lit ''%''
                            else style_width e),
                         textContent := Number_toString rt (Math_round n) @ lit ''%'',
                         style_background := bar_color (Math_round n)\<rparr>)
        (on_element ''verdict''
                 (\<lambda>e. e\<lparr>textContent := verdict_label (ToBoolean i),
                         style_color := (if ToBoolean i then lit ''#ef4444'' else lit ''#4ade80'')\<rparr>)
        (on_element ''confidenceValue''
           (\<lambda>e. e\<lparr>textContent := Number_toString rt (Math_round n) @ lit ''%''\<rparr>) w)))))"
    unfolding displayResults_detection_def assms(1) gi D_def details_def
    by (simp add: ToNumber_def Let_def sl)
  with gi show ?thesis by blast
qed

lemma hideError_errorMsg [simp]:
  "document (hideError w) ''errorMsg'' = classList_remove (lit ''show'') (document w ''errorMsg'')"
  by (simp add: hideError_def)

lemma classList_of_update [simp]:
  "classList (classList_add t e) = (if t \<in> set (classList e) then classList e else classList e @ [t])"
  "classList (classList_remove t e) = removeAll t (classList e)"
  by (simp_all add: classList_add_def classList_remove_def)

lemma performGeneration_resume_ok:
  "displayResults_generation rt data w = (None, w') \<Longrightarrow>
   performGeneration_resume rt fb p (Fetch_resolved True (Body_json data)) w =
     on_element ''regenerateBtn'' (\<lambda>e. e\<lparr>disabled := False\<rparr>)
       (on_element ''generateBtn'' (\<lambda>e. e\<lparr>disabled := False\<rparr>)
         (on_element ''loading'' (\<lambda>e. e\<lparr>style_display := lit ''none''\<rparr>)
           (saveToFirestore_generation fb p data w')))"
  by (simp add: performGeneration_resume_def performGeneration_try_def andThen_def)

lemma detect_resume_ok:
  "displayResults_detection rt data w = (None, w') \<Longrightarrow>
   detect_resume rt fb p (Fetch_resolved True (Body_json data)) w =
     on_element ''detectBtn'' (\<lambda>e. e\<lparr>disabled := False\<rparr>)
       (on_element ''loading'' (\<lambda>e. e\<lparr>style_display := lit ''none''\<rparr>)
         (saveToFirestore_detection fb p data w'))"
  by (simp add: detect_resume_def detect_try_def andThen_def)

lemma summarize_resume_ok:
  "displayResults_summary rt data w = (None, w') \<Longrightarrow>
   summarize_resume rt fb p (Fetch_resolved True (Body_json data)) w =
     on_element ''summarizeBtn'' (\<lambda>e. e\<lparr>disabled := False\<rparr>)
       (on_element ''loading'' (\<lambda>e. e\<lparr>style_display := lit ''none''\<rparr>)
         (saveToFirestore_summary fb p data w'))"
  by (simp add: summarize_resume_def summarize_try_def andThen_def)



lemma rendered_generation:
  assumes "Get gdata ''generatedText'' = Inr (Some g1)" and "DOMString rt (Some g1) = Inr gs1"
    and "Get gdata ''wordCount'' = Inr (Some g2)" and "DOMString rt (Some g2) = Inr gs2"
    and "Get gdata ''tokensUsed'' = Inr (Some g3)" and "DOMString rt (Some g3) = Inr gs3"
  shows "textContent (document (performGeneration_resume rt fb p (Fetch_resolved True (Body_json gdata)) w) ''generatedText'') = gs1
       \<and> textContent (document (performGeneration_resume rt fb p (Fetch_resolved True (Body_json gdata)) w) ''wordCount'') = gs2
       \<and> textContent (document (performGeneration_resume rt fb p (Fetch_resolved True (Body_json gdata)) w) ''tokensUsed'') = gs3
       \<and> lit ''show'' \<in> set (classList (document (performGeneration_resume rt fb p (Fetch_resolved True (Body_json gdata)) w) ''results''))
       \<and> document (performGeneration_resume rt fb p (Fetch_resolved True (Body_json gdata)) w) ''errorMsg'' = document w ''errorMsg''"
  unfolding performGeneration_resume_ok [OF displayResults_generation_ok [OF assms(1-6)]]
  by simp



lemma start_hides_error:
  "10 \<le> length (trim (el_value (document wg ''promptText''))) \<Longrightarrow>
     lit ''show'' \<notin> set (classList (document (snd (performGeneration_start rt wg)) ''errorMsg''))"
  "50 \<le> length (trim (el_value (document wd ''detectText''))) \<Longrightarrow>
     lit ''show'' \<notin> set (classList (document (snd (detect_start wd)) ''errorMsg''))"
  "100 \<le> length (trim (el_value (document ws ''summaryText''))) \<Longrightarrow>
     lit ''show'' \<notin> set (classList (document (snd (summarize_start rt ws)) ''errorMsg''))"
  by (simp_all add: performGeneration_start_valid detect_start_valid summarize_start_valid Let_def)

lemma floor_rat_numeral [simp]:
  "\<lfloor>numeral a / numeral b :: rat\<rfloor> = numeral a div numeral b"
  by (metis floor_divide_of_int_eq of_int_numeral)

lemma floor_rat_minus_numeral [simp]:
  "\<lfloor>- (numeral a / numeral b) :: rat\<rfloor> = - numeral a div numeral b"
  by (metis divide_minus_left floor_divide_of_int_eq of_int_neg_numeral of_int_numeral)

lemma sample_responses:
  "Get poem_response ''generatedText'' = Inr (Some (JStr (lit ''Roses are red'')))"
  "Get poem_response ''wordCount'' = Inr (Some (JNum (Fin 3)))"
  "Get poem_response ''tokensUsed'' = Inr (Some (JNum (Fin 12)))"
  "Get verdict_response ''confidence'' = Inr (Some (JNum (Fin 87.4)))"
  "Get verdict_response ''perplexity'' = Inr (Some (JNum (Fin 12.345)))"
  "Get verdict_response ''burstiness'' = Inr None"
  "Get summary_response ''summary'' = Inr (Some (JStr (lit ''Short.'')))"
  "Get summary_response ''originalWords'' = Inr (Some (JNum (Fin 120)))"
  "Get summary_response ''summaryWords'' = Inr (Some (JNum (Fin 30)))"
  "Get summary_response ''compressionRatio'' = Inr (Some (JNum (Fin 0.25)))"
  by (simp_all add: poem_response_def verdict_response_def summary_response_def lit_def)


lemma multiply_demo [simp]: "multiply demo_runtime a b = exact_multiply a b"
  by (simp add: demo_runtime_def)

lemma sample_valid:
  "10 \<le> length (trim (el_value (document poem_world ''promptText'')))"
  "50 \<le> length (trim (el_value (document essay_world ''detectText'')))"
  "100 \<le> length (trim (el_value (document essay_world ''summaryText'')))"
  by (simp_all add: lit_def)



subsection \<open>The colour of the confidence bar\<close>

lemma displayResults_detection_background:
  assumes "Get data ''confidence'' = Inr c" and "ToNumber rt c = Inr n"
  shows "style_background (document (snd (displayResults_detection rt data w)) ''confidenceFill'')
         = bar_color (Math_round n)"
proof -
  from assms(1) obtain i where i: "Get data ''isAI'' = Inr i"
    by (cases data) (simp_all add: Get_def)
  show ?thesis
    by (simp add: displayResults_detection_def assms i Let_def split: sum.splits)
qed

lemma detect_resume_confidenceFill:
  "document (detect_resume rt fb text (Fetch_resolved True (Body_json data)) w) ''confidenceFill''
   = document (snd (displayResults_detection rt data w)) ''confidenceFill''"
  by (cases "displayResults_detection rt data w")
    (simp add: detect_resume_def detect_try_def andThen_def Let_def split: option.splits)

lemma bar_color_bands:
  "0 \<le> r1 \<Longrightarrow> r1 < 30 \<Longrightarrow> bar_color (Fin r1) = lit ''#4ade80''"
  "30 \<le> r2 \<Longrightarrow> r2 < 70 \<Longrightarrow> bar_color (Fin r2) = lit ''#fbbf24''"
  "70 \<le> r3 \<Longrightarrow> r3 \<le> 100 \<Longrightarrow> bar_color (Fin r3) = lit ''#ef4444''"
  by (simp_all add: bar_color_def)

text \<open>
  Claim C4. In the detection flow the background of \<open>confidenceFill\<close> after rendering is
  \<open>bar_color\<close> of the rounded confidence and of nothing else: whatever the other fields
  of the response, the page before, the captured text, the store and the runtime, and
  even when a later statement of \<open>displayResults\<close> throws. For a rounded confidence in
  \<open>[0,30)\<close> that colour is the green \<open>#4ade80\<close>, in \<open>[30,70)\<close> the yellow \<open>#fbbf24\<close>, in
  \<open>[70,100]\<close> the red \<open>#ef4444\<close>.
\<close>

theorem bar_color_from_rounded_confidence:
  assumes "Get data ''confidence'' = Inr c" and "ToNumber rt c = Inr n"
    and "50 \<le> length (trim (el_value (document wd ''detectText'')))"
  shows "style_background (document
           (detect_resume rt fb text (Fetch_resolved True (Body_json data)) w) ''confidenceFill'')
         = bar_color (Math_round n)
       \<and> style_background (document
           (detect rt fb (Fetch_resolved True (Body_json data)) wd) ''confidenceFill'')
         = bar_color (Math_round n)
       \<and> (0 \<le> r1 \<and> r1 < 30 \<longrightarrow> bar_color (Fin r1) = lit ''#4ade80'')
       \<and> (30 \<le> r2 \<and> r2 < 70 \<longrightarrow> bar_color (Fin r2) = lit ''#fbbf24'')
       \<and> (70 \<le> r3 \<and> r3 \<le> 100 \<longrightarrow> bar_color (Fin r3) = lit ''#ef4444'')"
  unfolding detect_valid [OF assms(3)] detect_resume_confidenceFill
  using displayResults_detection_background [OF assms(1,2)] bar_color_bands
  by simp

text \<open>
  The hypotheses of C4 on the sample response (confidence \<open>87.4\<close>, a red bar), with the
  ends of the three bands.
\<close>

theorem bar_color_from_rounded_confidence_witness:
  "Get verdict_response ''confidence'' = Inr (Some (JNum (Fin 87.4)))
   \<and> ToNumber demo_runtime (Some (JNum (Fin 87.4))) = Inr (Fin 87.4)
   \<and> 50 \<le> length (trim (el_value (document essay_world ''detectText'')))
   \<and> style_background (document
        (detect demo_runtime (Firebase True) (Fetch_resolved True (Body_json verdict_response))
           essay_world) ''confidenceFill'') = lit ''#ef4444''
   \<and> bar_color (Fin 0) = lit ''#4ade80''
   \<and> bar_color (Fin 29) = lit ''#4ade80''
   \<and> bar_color (Fin 30) = lit ''#fbbf24''
   \<and> bar_color (Fin 69) = lit ''#fbbf24''
   \<and> bar_color (Fin 70) = lit ''#ef4444''
   \<and> bar_color (Fin 100) = lit ''#ef4444''"
proof -
  have n: "ToNumber demo_runtime (Some (JNum (Fin 87.4))) = Inr (Fin 87.4)"
    by (simp add: ToNumber_def)
  have r: "bar_color (Math_round (Fin 87.4)) = lit ''#ef4444''"
    by (simp add: Math_round_def bar_color_def)
  from bar_color_from_rounded_confidence [OF sample_responses(4) n sample_valid(2),
      where fb = "Firebase True" and ?r1.0 = 0 and ?r2.0 = 30 and ?r3.0 = 70]
    bar_color_from_rounded_confidence [OF sample_responses(4) n sample_valid(2),
      where fb = "Firebase True" and ?r1.0 = 29 and ?r2.0 = 69 and ?r3.0 = 100]
  show ?thesis
    using sample_responses(4) n sample_valid(2) r by simp
qed

subsection \<open>What rendering and resuming leave alone\<close>

lemma assign_textContent_frame [simp]:
  "fetched (snd (assign_textContent rt i d f w)) = fetched w"
  "added (snd (assign_textContent rt i d f w)) = added w"
  by (simp_all add: assign_textContent_def split: sum.splits)

lemma assign_ratio_frame [simp]:
  "fetched (snd (assign_ratio rt d w)) = fetched w"
  "added (snd (assign_ratio rt d w)) = added w"
  by (simp_all add: assign_ratio_def split: sum.splits)

lemma andThen_frame:
  assumes "\<And>w. fetched (snd (f w)) = fetched w" and "\<And>w. added (snd (f w)) = added w"
  shows "fetched (snd (andThen r f)) = fetched (snd r)"
    and "added (snd (andThen r f)) = added (snd r)"
  using assms by (cases r; cases "fst r"; simp add: andThen_def)+

lemma displayResults_generation_frame [simp]:
  "fetched (snd (displayResults_generation rt d w)) = fetched w"
  "added (snd (displayResults_generation rt d w)) = added w"
  by (simp_all add: displayResults_generation_def andThen_frame)

lemma displayResults_summary_frame [simp]:
  "fetched (snd (displayResults_summary rt d w)) = fetched w"
  "added (snd (displayResults_summary rt d w)) = added w"
  by (simp_all add: displayResults_summary_def andThen_frame)

lemma displayResults_detection_frame [simp]:
  "fetched (snd (displayResults_detection rt d w)) = fetched w"
  "added (snd (displayResults_detection rt d w)) = added w"
  by (simp_all add: displayResults_detection_def Let_def split: sum.splits)

lemma start_frame:
  "added (snd (performGeneration_start rt w)) = added w"
  "added (snd (detect_start w)) = added w"
  "added (snd (summarize_start rt w)) = added w"
  by (simp_all add: performGeneration_start_def detect_start_def summarize_start_def Let_def)

lemma start_fetched:
  "10 \<le> length (trim (el_value (document wg ''promptText''))) \<Longrightarrow>
   fetched (snd (performGeneration_start rt wg)) =
     fetched wg @ [generation_request rt (trim (el_value (document wg ''promptText'')))
                     (snd (performGeneration_start rt wg))]"
  "50 \<le> length (trim (el_value (document wd ''detectText''))) \<Longrightarrow>
   fetched (snd (detect_start wd)) =
     fetched wd @ [detection_request (trim (el_value (document wd ''detectText'')))]"
  "100 \<le> length (trim (el_value (document ws ''summaryText''))) \<Longrightarrow>
   fetched (snd (summarize_start rt ws)) =
     fetched ws @ [summary_request rt (trim (el_value (document ws ''summaryText'')))
                     (snd (summarize_start rt ws))]"
  by (simp_all add: performGeneration_start_valid detect_start_valid summarize_start_valid
      Let_def generation_request_def summary_request_def)

lemma resume_fetched [simp]:
  "fetched (performGeneration_resume rt fb p out w) = fetched w"
  "fetched (detect_resume rt fb p out w) = fetched w"
  "fetched (summarize_resume rt fb p out w) = fetched w"
proof -
  show "fetched (performGeneration_resume rt fb p out w) = fetched w"
    by (cases out)
      (auto simp add: performGeneration_resume_def performGeneration_try_def andThen_def Let_def
        saveToFirestore_generation_def
        split: body_outcome.splits option.splits prod.splits
        dest: arg_cong [where f = "\<lambda>r. fetched (snd r)"])
  show "fetched (detect_resume rt fb p out w) = fetched w"
    by (cases out)
      (auto simp add: detect_resume_def detect_try_def andThen_def Let_def
        saveToFirestore_detection_def
        split: body_outcome.splits option.splits prod.splits
        dest: arg_cong [where f = "\<lambda>r. fetched (snd r)"])
  show "fetched (summarize_resume rt fb p out w) = fetched w"
    by (cases out)
      (auto simp add: summarize_resume_def summarize_try_def andThen_def Let_def
        saveToFirestore_summary_def
        split: body_outcome.splits option.splits prod.splits
        dest: arg_cong [where f = "\<lambda>r. fetched (snd r)"])
qed

lemma resume_added:
  "fst (displayResults_generation rt d w) = None \<Longrightarrow>
   added (performGeneration_resume rt fb p (Fetch_resolved True (Body_json d)) w) =
     added w @ (if firestore_present fb
                then [(lit ''results'',
                       \<lparr>rec_type = lit ''generation'', rec_input = p, rec_output = d,
                        rec_timestamp = ServerTimestamp\<rparr>)]
                else [])"
  "fst (displayResults_detection rt d w) = None \<Longrightarrow>
   added (detect_resume rt fb p (Fetch_resolved True (Body_json d)) w) =
     added w @ (if firestore_present fb
                then [(lit ''results'',
                       \<lparr>rec_type = lit ''detection'', rec_input = take 500 p, rec_output = d,
                        rec_timestamp = ServerTimestamp\<rparr>)]
                else [])"
  "fst (displayResults_summary rt d w) = None \<Longrightarrow>
   added (summarize_resume rt fb p (Fetch_resolved True (Body_json d)) w) =
     added w @ (if firestore_present fb
                then [(lit ''results'',
                       \<lparr>rec_type = lit ''summary'', rec_input = take 500 p, rec_output = d,
                        rec_timestamp = ServerTimestamp\<rparr>)]
                else [])"
proof -
  assume "fst (displayResults_generation rt d w) = None"
  then have "displayResults_generation rt d w = (None, snd (displayResults_generation rt d w))"
    by (cases "displayResults_generation rt d w") simp
  from performGeneration_resume_ok [OF this]
  show "added (performGeneration_resume rt fb p (Fetch_resolved True (Body_json d)) w) =
     added w @ (if firestore_present fb
                then [(lit ''results'',
                       \<lparr>rec_type = lit ''generation'', rec_input = p, rec_output = d,
                        rec_timestamp = ServerTimestamp\<rparr>)]
                else [])"
    by (simp add: saveToFirestore_generation_def)
next
  assume "fst (displayResults_detection rt d w) = None"
  then have "displayResults_detection rt d w = (None, snd (displayResults_detection rt d w))"
    by (cases "displayResults_detection rt d w") simp
  from detect_resume_ok [OF this]
  show "added (detect_resume rt fb p (Fetch_resolved True (Body_json d)) w) =
     added w @ (if firestore_present fb
                then [(lit ''results'',
                       \<lparr>rec_type = lit ''detection'', rec_input = take 500 p, rec_output = d,
                        rec_timestamp = ServerTimestamp\<rparr>)]
                else [])"
    by (simp add: saveToFirestore_detection_def substring0_def)
next
  assume "fst (displayResults_summary rt d w) = None"
  then have "displayResults_summary rt d w = (None, snd (displayResults_summary rt d w))"
    by (cases "displayResults_summary rt d w") simp
  from summarize_resume_ok [OF this]
  show "added (summarize_resume rt fb p (Fetch_resolved True (Body_json d)) w) =
     added w @ (if firestore_present fb
                then [(lit ''results'',
                       \<lparr>rec_type = lit ''summary'', rec_input = take 500 p, rec_output = d,
                        rec_timestamp = ServerTimestamp\<rparr>)]
                else [])"
    by (simp add: saveToFirestore_summary_def substring0_def)
qed

subsection \<open>The audit log\<close>

text \<open>
  The settling of the promise of \<open>add\<close> leaves the document as it is, whether the
  promise is fulfilled or rejected: the rejection handler only appends a line to the
  console.
\<close>

lemma rejected_write_is_silent:
  "document (add_settled_generation outcome w) = document w
   \<and> document (add_settled_detection outcome w) = document w
   \<and> document (add_settled_summary outcome w) = document w
   \<and> add_settled_generation (Rejected reason) w
       = (add_settled_generation Fulfilled w)\<lparr>console := console w @ [[Caught (Rejection reason)]]\<rparr>
   \<and> add_settled_detection (Rejected reason) w
       = (add_settled_detection Fulfilled w)
           \<lparr>console := console w
              @ [[Text (lit ''Error saving to Firestore:''), Caught (Rejection reason)]]\<rparr>
   \<and> add_settled_summary (Rejected reason) w
       = (add_settled_summary Fulfilled w)\<lparr>console := console w @ [[Caught (Rejection reason)]]\<rparr>
   \<and> document (add_settled_generation (Rejected reason) (performGeneration rt fb out wg))
       = document (add_settled_generation Fulfilled (performGeneration rt fb out wg))
   \<and> document (add_settled_detection (Rejected reason) (detect rt fb out wd))
       = document (add_settled_detection Fulfilled (detect rt fb out wd))
   \<and> document (add_settled_summary (Rejected reason) (summarize rt fb out ws))
       = document (add_settled_summary Fulfilled (summarize rt fb out ws))"
  by (cases outcome)
    (simp_all add: add_settled_generation_def add_settled_detection_def
      add_settled_summary_def console_error_def)

subsection \<open>The copy buttons\<close>

lemma copy_then_simps:
  "clipboard (copy_then Fulfilled text label w) = Some text"
  "timers (copy_then Fulfilled text label w) = timers w @ [(2000, label)]"
  "document (copy_then Fulfilled text label w) ''copyBtn''
     = classList_add (lit ''copied'')
         ((document w ''copyBtn'')\<lparr>textContent := 0x2713 # lit '' Copied!''\<rparr>)"
  "copy_then (Rejected reason) text label w = w"
  by (simp_all add: copy_then_def Let_def)

lemma run_timer_after_copy:
  "timers w = [] \<Longrightarrow>
   run_timer (copy_then Fulfilled text label w) =
     copy_timeout label ((copy_then Fulfilled text label w)\<lparr>timers := []\<rparr>)"
  by (simp add: run_timer_def copy_then_simps)

lemma copy_restored:
  "document (copy_timeout label ((copy_then Fulfilled text label w)\<lparr>timers := ts\<rparr>)) ''copyBtn''
     = classList_remove (lit ''copied'') ((document w ''copyBtn'')\<lparr>textContent := label\<rparr>)"
  by (simp add: copy_timeout_def copy_then_def Let_def classList_add_def classList_remove_def)

lemma copy_restored_original:
  "textContent e = label \<Longrightarrow> lit ''copied'' \<notin> set (classList e) \<Longrightarrow>
   classList_remove (lit ''copied'') (e\<lparr>textContent := label\<rparr>) = e"
  by (simp add: classList_remove_def)

lemma labelled_simps [simp]:
  "timers (labelled l w) = timers w"
  "textContent (document (labelled l w) ''copyBtn'') = l"
  "classList (document (labelled l w) ''copyBtn'') = classList (document w ''copyBtn'')"
  "i \<noteq> ''copyBtn'' \<Longrightarrow> document (labelled l w) i = document w i"
  by (simp_all add: labelled_def)

text \<open>
  Claim C6, as stated, fails in the detection flow: the text handed to the clipboard is
  not the text on display but a heading, two line feeds and the text of
  \<open>analysisDetails\<close>.
\<close>

theorem copy_detection_adds_heading:
  "textContent (document details_world ''analysisDetails'') = lit ''Detection Confidence: 87%''
   \<and> clipboard (copyBtn_detection Fulfilled details_world)
       = Some (lit ''AI Detection Results'' @ [0x0A, 0x0A] @ lit ''Detection Confidence: 87%'')
   \<and> clipboard (copyBtn_detection Fulfilled details_world)
       \<noteq> Some (textContent (document details_world ''analysisDetails''))"
proof -
  have t: "textContent (document details_world ''analysisDetails'')
      = lit ''Detection Confidence: 87%''"
    by (simp add: details_world_def)
  show ?thesis
    by (simp add: copyBtn_detection_def copy_then_simps t)
qed

text \<open>
  Claim C6, amended. A click on the copy button hands to \<open>writeText\<close> exactly the
  current text of \<open>generatedText\<close> (generation) or of \<open>summaryResult\<close> (summarization);
  in the detection flow it hands over \<open>AI Detection Results\<close>, two line feeds and the
  current text of \<open>analysisDetails\<close>. When the write is fulfilled the label becomes the
  check mark with \<open>Copied!\<close>, the class \<open>copied\<close> is added and one timer of 2000 ms is
  set; its callback writes the flow's fixed label (\<open>Copy Text\<close>, \<open>Copy Results\<close>,
  \<open>Copy Summary\<close>) and removes the class, so that a button which carried that label
  and not that class before the click, on a page with no timer pending, is back as it
  was once the timer has fired. When the write is rejected nothing changes.
\<close>

theorem copy_hands_over_displayed_text:
  assumes "timers wg = []" and "timers wd = []" and "timers ws = []"
    and "textContent (document wg ''copyBtn'') = lit ''Copy Text''"
    and "textContent (document wd ''copyBtn'') = lit ''Copy Results''"
    and "textContent (document ws ''copyBtn'') = lit ''Copy Summary''"
    and "lit ''copied'' \<notin> set (classList (document wg ''copyBtn''))"
    and "lit ''copied'' \<notin> set (classList (document wd ''copyBtn''))"
    and "lit ''copied'' \<notin> set (classList (document ws ''copyBtn''))"
  shows "clipboard (copyBtn_generation Fulfilled w) = Some (textContent (document w ''generatedText''))
       \<and> clipboard (copyBtn_detection Fulfilled w)
           = Some (lit ''AI Detection Results'' @ [0x0A, 0x0A]
                   @ textContent (document w ''analysisDetails''))
       \<and> clipboard (copyBtn_summary Fulfilled w) = Some (textContent (document w ''summaryResult''))
       \<and> copyBtn_generation (Rejected reason) w = w
       \<and> copyBtn_detection (Rejected reason) w = w
       \<and> copyBtn_summary (Rejected reason) w = w
       \<and> timers (copyBtn_generation Fulfilled w) = timers w @ [(2000, lit ''Copy Text'')]
       \<and> timers (copyBtn_detection Fulfilled w) = timers w @ [(2000, lit ''Copy Results'')]
       \<and> timers (copyBtn_summary Fulfilled w) = timers w @ [(2000, lit ''Copy Summary'')]
       \<and> textContent (document (copyBtn_generation Fulfilled w) ''copyBtn'') = 0x2713 # lit '' Copied!''
       \<and> textContent (document (copyBtn_detection Fulfilled w) ''copyBtn'') = 0x2713 # lit '' Copied!''
       \<and> textContent (document (copyBtn_summary Fulfilled w) ''copyBtn'') = 0x2713 # lit '' Copied!''
       \<and> lit ''copied'' \<in> set (classList (document (copyBtn_generation Fulfilled w) ''copyBtn''))
       \<and> lit ''copied'' \<in> set (classList (document (copyBtn_detection Fulfilled w) ''copyBtn''))
       \<and> lit ''copied'' \<in> set (classList (document (copyBtn_summary Fulfilled w) ''copyBtn''))
       \<and> document (copy_timeout (lit ''Copy Text'') (copyBtn_generation Fulfilled w)) ''copyBtn''
           = classList_remove (lit ''copied'') ((document w ''copyBtn'')\<lparr>textContent := lit ''Copy Text''\<rparr>)
       \<and> document (copy_timeout (lit ''Copy Results'') (copyBtn_detection Fulfilled w)) ''copyBtn''
           = classList_remove (lit ''copied'') ((document w ''copyBtn'')\<lparr>textContent := lit ''Copy Results''\<rparr>)
       \<and> document (copy_timeout (lit ''Copy Summary'') (copyBtn_summary Fulfilled w)) ''copyBtn''
           = classList_remove (lit ''copied'') ((document w ''copyBtn'')\<lparr>textContent := lit ''Copy Summary''\<rparr>)
       \<and> document (run_timer (copyBtn_generation Fulfilled wg)) ''copyBtn'' = document wg ''copyBtn''
       \<and> document (run_timer (copyBtn_detection Fulfilled wd)) ''copyBtn'' = document wd ''copyBtn''
       \<and> document (run_timer (copyBtn_summary Fulfilled ws)) ''copyBtn'' = document ws ''copyBtn''"
proof -
  have r: "document (copy_timeout l (copy_then Fulfilled t l v)) ''copyBtn''
      = classList_remove (lit ''copied'') ((document v ''copyBtn'')\<lparr>textContent := l\<rparr>)" for l t v
    by (simp add: copy_timeout_def copy_then_def Let_def classList_add_def classList_remove_def)
  note o = copy_restored_original [OF assms(4,7)] copy_restored_original [OF assms(5,8)]
    copy_restored_original [OF assms(6,9)]
  show ?thesis
    using assms(1-3) o
    by (simp add: copyBtn_generation_def copyBtn_detection_def copyBtn_summary_def
      run_timer_after_copy copy_restored copy_then_simps r)
qed

text \<open>The hypotheses of the amended C6 on three sample pages.\<close>

theorem copy_hands_over_displayed_text_witness:
  "timers (labelled (lit ''Copy Text'') poem_world) = []
   \<and> timers (labelled (lit ''Copy Results'') details_world) = []
   \<and> timers (labelled (lit ''Copy Summary'') blank_world) = []
   \<and> textContent (document (labelled (lit ''Copy Text'') poem_world) ''copyBtn'') = lit ''Copy Text''
   \<and> textContent (document (labelled (lit ''Copy Results'') details_world) ''copyBtn'')
       = lit ''Copy Results''
   \<and> textContent (document (labelled (lit ''Copy Summary'') blank_world) ''copyBtn'')
       = lit ''Copy Summary''
   \<and> lit ''copied'' \<notin> set (classList (document (labelled (lit ''Copy Text'') poem_world) ''copyBtn''))
   \<and> lit ''copied''
       \<notin> set (classList (document (labelled (lit ''Copy Results'') details_world) ''copyBtn''))
   \<and> lit ''copied''
       \<notin> set (classList (document (labelled (lit ''Copy Summary'') blank_world) ''copyBtn''))
   \<and> clipboard (copyBtn_generation Fulfilled poem_world) = Some (lit ''An old poem'')
   \<and> timers (copyBtn_generation Fulfilled poem_world) = [(2000, lit ''Copy Text'')]
   \<and> document (run_timer (copyBtn_generation Fulfilled (labelled (lit ''Copy Text'') poem_world)))
        ''copyBtn'' = document (labelled (lit ''Copy Text'') poem_world) ''copyBtn''
   \<and> document (run_timer (copyBtn_detection Fulfilled (labelled (lit ''Copy Results'') details_world)))
        ''copyBtn'' = document (labelled (lit ''Copy Results'') details_world) ''copyBtn''
   \<and> document (run_timer (copyBtn_summary Fulfilled (labelled (lit ''Copy Summary'') blank_world)))
        ''copyBtn'' = document (labelled (lit ''Copy Summary'') blank_world) ''copyBtn''"
proof -
  have t: "timers poem_world = []" "timers details_world = []" "timers blank_world = []"
    by (simp_all add: poem_world_def details_world_def blank_world_def typed_def)
  have c: "classList (document poem_world ''copyBtn'') = []"
    "classList (document details_world ''copyBtn'') = []"
    "classList (document blank_world ''copyBtn'') = []"
    by (simp_all add: poem_world_def details_world_def blank_world_def typed_def blank_def)
  have g: "textContent (document poem_world ''generatedText'') = lit ''An old poem''"
    by (simp add: poem_world_def typed_def)
  have h: "timers (labelled (lit ''Copy Text'') poem_world) = []"
    "timers (labelled (lit ''Copy Results'') details_world) = []"
    "timers (labelled (lit ''Copy Summary'') blank_world) = []"
    "textContent (document (labelled (lit ''Copy Text'') poem_world) ''copyBtn'') = lit ''Copy Text''"
    "textContent (document (labelled (lit ''Copy Results'') details_world) ''copyBtn'')
       = lit ''Copy Results''"
    "textContent (document (labelled (lit ''Copy Summary'') blank_world) ''copyBtn'')
       = lit ''Copy Summary''"
    "lit ''copied'' \<notin> set (classList (document (labelled (lit ''Copy Text'') poem_world) ''copyBtn''))"
    "lit ''copied''
       \<notin> set (classList (document (labelled (lit ''Copy Results'') details_world) ''copyBtn''))"
    "lit ''copied''
       \<notin> set (classList (document (labelled (lit ''Copy Summary'') blank_world) ''copyBtn''))"
    by (simp_all add: t c)
  from copy_hands_over_displayed_text [OF h, where w = poem_world]
  show ?thesis
    using h by (simp add: t g)
qed

subsection \<open>The audit record\<close>

lemma flow_added:
  "10 \<le> length (trim (el_value (document wg ''promptText''))) \<Longrightarrow>
   fst (displayResults_generation rt gdata (snd (performGeneration_start rt wg))) = None \<Longrightarrow>
   added (performGeneration rt fb (Fetch_resolved True (Body_json gdata)) wg) =
     added wg @ (if firestore_present fb
                 then [(lit ''results'',
                        \<lparr>rec_type = lit ''generation'',
                         rec_input = trim (el_value (document wg ''promptText'')),
                         rec_output = gdata, rec_timestamp = ServerTimestamp\<rparr>)]
                 else [])"
  "50 \<le> length (trim (el_value (document wd ''detectText''))) \<Longrightarrow>
   fst (displayResults_detection rt ddata (snd (detect_start wd))) = None \<Longrightarrow>
   added (detect rt fb (Fetch_resolved True (Body_json ddata)) wd) =
     added wd @ (if firestore_present fb
                 then [(lit ''results'',
                        \<lparr>rec_type = lit ''detection'',
                         rec_input = take 500 (trim (el_value (document wd ''detectText''))),
                         rec_output = ddata, rec_timestamp = ServerTimestamp\<rparr>)]
                 else [])"
  "100 \<le> length (trim (el_value (document ws ''summaryText''))) \<Longrightarrow>
   fst (displayResults_summary rt sdata (snd (summarize_start rt ws))) = None \<Longrightarrow>
   added (summarize rt fb (Fetch_resolved True (Body_json sdata)) ws) =
     added ws @ (if firestore_present fb
                 then [(lit ''results'',
                        \<lparr>rec_type = lit ''summary'',
                         rec_input = take 500 (trim (el_value (document ws ''summaryText''))),
                         rec_output = sdata, rec_timestamp = ServerTimestamp\<rparr>)]
                 else [])"
  by (simp_all only: performGeneration_valid detect_valid summarize_valid resume_added start_frame)

lemma sample_rendering:
  "fst (displayResults_generation demo_runtime poem_response w) = None"
  "fst (displayResults_detection demo_runtime verdict_response w) = None"
  "fst (displayResults_summary demo_runtime summary_response w) = None"
proof -
  show "fst (displayResults_generation demo_runtime poem_response w) = None"
    by (simp add: displayResults_generation_ok [OF sample_responses(1) DOMString_simps(1)
          sample_responses(2) DOMString_simps(2) sample_responses(3) DOMString_simps(2)])
  have o: "optional_number (Some (JNum (Fin 12.345)))" "optional_number None"
    by (simp_all add: optional_number_def)
  from displayResults_detection_ok [OF sample_responses(4) sample_responses(5) o(1)
      sample_responses(6) o(2), of demo_runtime w]
  show "fst (displayResults_detection demo_runtime verdict_response w) = None"
    by auto
  show "fst (displayResults_summary demo_runtime summary_response w) = None"
    by (simp add: displayResults_summary_ok [OF sample_responses(7) DOMString_simps(1)
          sample_responses(8) DOMString_simps(2) sample_responses(9) DOMString_simps(2)
          sample_responses(10)])
qed

lemma sample_added [simp]:
  "added poem_world = []" "added essay_world = []" "added long_world = []"
  by (simp_all add: poem_world_def essay_world_def long_world_def typed_def blank_world_def)

lemma present_True [simp]: "firestore_present (Firebase True)"
  by (simp add: firestore_present_def)

text \<open>
  Claim C7. When a flow succeeds (the input passes validation, the response has a
  success status and a JSON body, rendering completes), the handler hands to the store,
  if the store client is present, exactly one record for the collection \<open>results\<close>:
  its type is \<open>generation\<close>, \<open>detection\<close> or \<open>summary\<close> after the flow, its input is the
  submitted (trimmed) text, whole in the generation flow and cut to its first 500 code
  units in the other two, its output is the response payload and its timestamp is the
  server-timestamp sentinel. Without the store client nothing is handed over.
\<close>

theorem audit_record_shape:
  assumes "10 \<le> length (trim (el_value (document wg ''promptText'')))"
    and "50 \<le> length (trim (el_value (document wd ''detectText'')))"
    and "100 \<le> length (trim (el_value (document ws ''summaryText'')))"
    and "fst (displayResults_generation rt gdata (snd (performGeneration_start rt wg))) = None"
    and "fst (displayResults_detection rt ddata (snd (detect_start wd))) = None"
    and "fst (displayResults_summary rt sdata (snd (summarize_start rt ws))) = None"
  shows "added (performGeneration rt fb (Fetch_resolved True (Body_json gdata)) wg) =
     added wg @ (if firestore_present fb
                 then [(lit ''results'',
                        \<lparr>rec_type = lit ''generation'',
                         rec_input = trim (el_value (document wg ''promptText'')),
                         rec_output = gdata, rec_timestamp = ServerTimestamp\<rparr>)]
                 else [])
   \<and> added (detect rt fb (Fetch_resolved True (Body_json ddata)) wd) =
     added wd @ (if firestore_present fb
                 then [(lit ''results'',
                        \<lparr>rec_type = lit ''detection'',
                         rec_input = take 500 (trim (el_value (document wd ''detectText''))),
                         rec_output = ddata, rec_timestamp = ServerTimestamp\<rparr>)]
                 else [])
   \<and> added (summarize rt fb (Fetch_resolved True (Body_json sdata)) ws) =
     added ws @ (if firestore_present fb
                 then [(lit ''results'',
                        \<lparr>rec_type = lit ''summary'',
                         rec_input = take 500 (trim (el_value (document ws ''summaryText''))),
                         rec_output = sdata, rec_timestamp = ServerTimestamp\<rparr>)]
                 else [])"
  using flow_added(1) [OF assms(1,4)] flow_added(2) [OF assms(2,5)] flow_added(3) [OF assms(3,6)]
  by blast

text \<open>The hypotheses of C7 on the sample pages and responses, with the store present.\<close>

theorem audit_record_shape_witness:
  "10 \<le> length (trim (el_value (document poem_world ''promptText'')))
   \<and> 50 \<le> length (trim (el_value (document essay_world ''detectText'')))
   \<and> 100 \<le> length (trim (el_value (document essay_world ''summaryText'')))
   \<and> fst (displayResults_generation demo_runtime poem_response
            (snd (performGeneration_start demo_runtime poem_world))) = None
   \<and> fst (displayResults_detection demo_runtime verdict_response
            (snd (detect_start essay_world))) = None
   \<and> fst (displayResults_summary demo_runtime summary_response
            (snd (summarize_start demo_runtime essay_world))) = None
   \<and> added (performGeneration demo_runtime (Firebase True)
              (Fetch_resolved True (Body_json poem_response)) poem_world)
       = [(lit ''results'',
           \<lparr>rec_type = lit ''generation'', rec_input = lit ''Write a short poem'',
            rec_output = poem_response, rec_timestamp = ServerTimestamp\<rparr>)]
   \<and> added (detect demo_runtime (Firebase True)
              (Fetch_resolved True (Body_json verdict_response)) essay_world)
       = [(lit ''results'',
           \<lparr>rec_type = lit ''detection'', rec_input = replicate 60 0x61,
            rec_output = verdict_response, rec_timestamp = ServerTimestamp\<rparr>)]
   \<and> added (summarize demo_runtime (Firebase True)
              (Fetch_resolved True (Body_json summary_response)) essay_world)
       = [(lit ''results'',
           \<lparr>rec_type = lit ''summary'', rec_input = replicate 120 0x61,
            rec_output = summary_response, rec_timestamp = ServerTimestamp\<rparr>)]"
  using audit_record_shape [OF sample_valid sample_rendering, where fb = "Firebase True"]
    sample_valid sample_rendering
  by simp

subsection \<open>File upload\<close>

text \<open>
  Claim C8. In the \<open>change\<close> handler of the detection page, a selected file is handed to
  the reader if and only if its type is \<open>text/plain\<close>. For such a file no error is
  shown, and when the read completes the text field holds the file's text (as the
  control stores an assigned value) and the counter its length. For a file of any other
  type the handler shows \<open>Please upload a .txt file\<close>, no read is started and the text
  field is left as it is.
\<close>

theorem upload_reads_plain_text_only:
  assumes "file_type f = lit ''text/plain''" and "file_type g \<noteq> lit ''text/plain''"
  shows "fileUpload_change (Some f) w = (Some f, w)
       \<and> el_value (document (fileUpload rt (Some f) True w) ''detectText'')
           = sanitize_value rt (file_text f)
       \<and> textContent (document (fileUpload rt (Some f) True w) ''charCount'')
           = Number_toString rt (Fin (of_nat (length (sanitize_value rt (file_text f)))))
       \<and> document (fileUpload rt (Some f) True w) ''errorMsg'' = document w ''errorMsg''
       \<and> fileUpload rt (Some f) False w = w
       \<and> fst (fileUpload_change (Some g) w) = None
       \<and> fileUpload rt (Some g) loads w = showError (lit ''Please upload a .txt file'') w
       \<and> document (fileUpload rt (Some g) loads w) ''detectText'' = document w ''detectText''
       \<and> textContent (document (fileUpload rt (Some g) loads w) ''errorMsg'')
           = lit ''Please upload a .txt file''
       \<and> lit ''show'' \<in> set (classList (document (fileUpload rt (Some g) loads w) ''errorMsg''))
       \<and> (fst (fileUpload_change (Some h) w) = Some h) = (file_type h = lit ''text/plain'')"
  using assms
  by (simp add: fileUpload_def fileUpload_change_def reader_onload_def Let_def)

text \<open>The hypotheses of C8 on a plain-text file and on an image.\<close>

theorem upload_reads_plain_text_only_witness:
  "file_type text_file = lit ''text/plain''
   \<and> file_type image_file \<noteq> lit ''text/plain''
   \<and> el_value (document (fileUpload demo_runtime (Some text_file) True blank_world) ''detectText'')
       = lit ''Dear reader''
   \<and> textContent (document (fileUpload demo_runtime (Some text_file) True blank_world) ''charCount'')
       = lit ''11''
   \<and> fst (fileUpload_change (Some image_file) blank_world) = None
   \<and> el_value (document (fileUpload demo_runtime (Some image_file) True blank_world) ''detectText'')
       = []
   \<and> textContent (document (fileUpload demo_runtime (Some image_file) True blank_world) ''errorMsg'')
       = lit ''Please upload a .txt file''"
proof -
  have f: "file_type text_file = lit ''text/plain''"
    by (simp add: text_file_def)
  have g: "file_type image_file \<noteq> lit ''text/plain''"
    by (simp add: image_file_def lit_def)
  have t: "file_text text_file = lit ''Dear reader''"
    by (simp add: text_file_def)
  have s: "sanitize_value demo_runtime v = v" for v
    by (simp add: demo_runtime_def)
  have n: "Number_toString demo_runtime (Fin (of_nat (length (lit ''Dear reader'')))) = lit ''11''"
    by (simp add: Number_toString_def dec.simps lit_def)
  have b: "el_value (document blank_world ''detectText'') = []"
    by (simp add: blank_world_def blank_def)
  from upload_reads_plain_text_only [OF f g, where rt = demo_runtime and w = blank_world
      and loads = True]
  show ?thesis
    using f g by (simp add: t s n b)
qed

subsection \<open>Trimming\<close>

lemma long_world_text [simp]:
  "trim (el_value (document long_world ''detectText'')) = replicate 501 0x61"
  by (simp add: long_world_def)

lemma start_result:
  "fst (performGeneration_start rt w) =
     (if length (trim (el_value (document w ''promptText''))) < 10 then None
      else Some (trim (el_value (document w ''promptText''))))"
  "fst (detect_start w) =
     (if length (trim (el_value (document w ''detectText''))) < 50 then None
      else Some (trim (el_value (document w ''detectText''))))"
  "fst (summarize_start rt w) =
     (if length (trim (el_value (document w ''summaryText''))) < 100 then None
      else Some (trim (el_value (document w ''summaryText''))))"
  by (auto simp add: performGeneration_start_def detect_start_def summarize_start_def Let_def)

lemma flow_fetched:
  "10 \<le> length (trim (el_value (document wg ''promptText''))) \<Longrightarrow>
   fetched (performGeneration rt fb out wg) =
     fetched wg @ [generation_request rt (trim (el_value (document wg ''promptText'')))
                     (snd (performGeneration_start rt wg))]"
  "50 \<le> length (trim (el_value (document wd ''detectText''))) \<Longrightarrow>
   fetched (detect rt fb out wd) =
     fetched wd @ [detection_request (trim (el_value (document wd ''detectText'')))]"
  "100 \<le> length (trim (el_value (document ws ''summaryText''))) \<Longrightarrow>
   fetched (summarize rt fb out ws) =
     fetched ws @ [summary_request rt (trim (el_value (document ws ''summaryText'')))
                     (snd (summarize_start rt ws))]"
  by (simp_all only: performGeneration_valid detect_valid summarize_valid resume_fetched
      start_fetched)

lemma request_text:
  "Get (body (generation_request rt t w)) ''prompt'' = Inr (Some (JStr t))"
  "Get (body (detection_request t)) ''text'' = Inr (Some (JStr t))"
  "Get (body (summary_request rt t w)) ''text'' = Inr (Some (JStr t))"
  by (simp_all add: generation_request_def detection_request_def summary_request_def)

text \<open>
  Claim C10, as stated, fails for the audit record of the detection and summarization
  flows: its input is not the trimmed text but the first 500 code units of it. On a
  detection page holding 501 letters the record holds 500.
\<close>

theorem audit_input_is_cut_at_500:
  "added (detect demo_runtime (Firebase True) (Fetch_resolved True (Body_json verdict_response))
            long_world)
     = [(lit ''results'',
         \<lparr>rec_type = lit ''detection'', rec_input = replicate 500 0x61,
          rec_output = verdict_response, rec_timestamp = ServerTimestamp\<rparr>)]
   \<and> replicate 500 0x61 \<noteq> trim (el_value (document long_world ''detectText''))"
proof -
  have v: "50 \<le> length (trim (el_value (document long_world ''detectText'')))"
    by simp
  from flow_added(2) [OF v sample_rendering(2), where fb = "Firebase True"]
  show ?thesis
    by simp
qed

text \<open>
  Claim C10, amended. In every flow the handler validates the trimmed text: it goes on
  to \<open>fetch\<close> exactly when the trimmed text has the minimum length, whatever the length
  of the raw value. The text field of the request body (\<open>prompt\<close> or \<open>text\<close>) is the
  trimmed text, and on success, with the store present, the input of the audit record
  is the trimmed text in the generation flow and the first 500 code units of the
  trimmed text in the detection and summarization flows.
\<close>

theorem trimmed_text_is_validated_and_sent:
  assumes "10 \<le> length (trim (el_value (document wg ''promptText'')))"
    and "50 \<le> length (trim (el_value (document wd ''detectText'')))"
    and "100 \<le> length (trim (el_value (document ws ''summaryText'')))"
    and "fst (displayResults_generation rt gdata (snd (performGeneration_start rt wg))) = None"
    and "fst (displayResults_detection rt ddata (snd (detect_start wd))) = None"
    and "fst (displayResults_summary rt sdata (snd (summarize_start rt ws))) = None"
    and "firestore_present fb"
  shows "fst (performGeneration_start rt w) =
           (if length (trim (el_value (document w ''promptText''))) < 10 then None
            else Some (trim (el_value (document w ''promptText''))))
       \<and> fst (detect_start w) =
           (if length (trim (el_value (document w ''detectText''))) < 50 then None
            else Some (trim (el_value (document w ''detectText''))))
       \<and> fst (summarize_start rt w) =
           (if length (trim (el_value (document w ''summaryText''))) < 100 then None
            else Some (trim (el_value (document w ''summaryText''))))
       \<and> Get (body (last (fetched (performGeneration rt fb out wg)))) ''prompt''
           = Inr (Some (JStr (trim (el_value (document wg ''promptText'')))))
       \<and> Get (body (last (fetched (detect rt fb out wd)))) ''text''
           = Inr (Some (JStr (trim (el_value (document wd ''detectText'')))))
       \<and> Get (body (last (fetched (summarize rt fb out ws)))) ''text''
           = Inr (Some (JStr (trim (el_value (document ws ''summaryText'')))))
       \<and> rec_input (snd (last (added
            (performGeneration rt fb (Fetch_resolved True (Body_json gdata)) wg))))
           = trim (el_value (document wg ''promptText''))
       \<and> rec_input (snd (last (added
            (detect rt fb (Fetch_resolved True (Body_json ddata)) wd))))
           = take 500 (trim (el_value (document wd ''detectText'')))
       \<and> rec_input (snd (last (added
            (summarize rt fb (Fetch_resolved True (Body_json sdata)) ws))))
           = take 500 (trim (el_value (document ws ''summaryText'')))"
  using assms(7)
  by (simp add: start_result flow_fetched(1) [OF assms(1)] flow_fetched(2) [OF assms(2)]
      flow_fetched(3) [OF assms(3)] request_text flow_added(1) [OF assms(1,4)]
      flow_added(2) [OF assms(2,5)] flow_added(3) [OF assms(3,6)])

text \<open>
  The hypotheses of the amended C10 on the sample pages, with a prompt that reaches ten
  code units only through the blanks around it and is rejected.
\<close>

theorem trimmed_text_is_validated_and_sent_witness:
  "10 \<le> length (trim (el_value (document poem_world ''promptText'')))
   \<and> 50 \<le> length (trim (el_value (document long_world ''detectText'')))
   \<and> 100 \<le> length (trim (el_value (document essay_world ''summaryText'')))
   \<and> fst (displayResults_generation demo_runtime poem_response
            (snd (performGeneration_start demo_runtime poem_world))) = None
   \<and> fst (displayResults_detection demo_runtime verdict_response
            (snd (detect_start long_world))) = None
   \<and> fst (displayResults_summary demo_runtime summary_response
            (snd (summarize_start demo_runtime essay_world))) = None
   \<and> firestore_present (Firebase True)
   \<and> fst (performGeneration_start demo_runtime
            (typed ''promptText'' (lit ''   poem     '') blank_world)) = None
   \<and> Get (body (last (fetched (performGeneration demo_runtime (Firebase True) Fetch_rejected
            poem_world)))) ''prompt'' = Inr (Some (JStr (lit ''Write a short poem'')))
   \<and> rec_input (snd (last (added
        (performGeneration demo_runtime (Firebase True)
           (Fetch_resolved True (Body_json poem_response)) poem_world))))
       = lit ''Write a short poem''
   \<and> rec_input (snd (last (added
        (detect demo_runtime (Firebase True)
           (Fetch_resolved True (Body_json verdict_response)) long_world))))
       = replicate 500 0x61"
proof -
  have v: "50 \<le> length (trim (el_value (document long_world ''detectText'')))"
    by simp
  have p: "length (lit ''poem'') < 10"
    by (simp add: lit_def)
  from trimmed_text_is_validated_and_sent [OF sample_valid(1) v sample_valid(3)
      sample_rendering present_True,
      where w = "typed ''promptText'' (lit ''   poem     '') blank_world"
        and out = Fetch_rejected]
  show ?thesis
    using sample_valid(1) v sample_valid(3) sample_rendering
    by (simp add: trim_poem p)
qed

subsection \<open>A write that throws\<close>

lemma call_returns:
  "performGeneration_call rt fb Promise_returned out w = performGeneration rt fb out w"
  "detect_call rt fb Promise_returned out w = detect rt fb out w"
  "summarize_call rt fb Promise_returned out w = summarize rt fb out w"
proof -
  have g: "saveToFirestore_generation_call fb Promise_returned p d
      = (\<lambda>v. (None, saveToFirestore_generation fb p d v))" for p d
    by (rule ext) (simp add: saveToFirestore_generation_call_def saveToFirestore_generation_def)
  have d: "saveToFirestore_detection_call fb Promise_returned p d
      = (\<lambda>v. (None, saveToFirestore_detection fb p d v))" for p d
    by (rule ext) (simp add: saveToFirestore_detection_call_def saveToFirestore_detection_def)
  have s: "saveToFirestore_summary_call fb Promise_returned p d
      = (\<lambda>v. (None, saveToFirestore_summary fb p d v))" for p d
    by (rule ext) (simp add: saveToFirestore_summary_call_def saveToFirestore_summary_def)
  have "performGeneration_try_call rt fb Promise_returned p out v
      = performGeneration_try rt fb p out v" for p v
    by (simp add: performGeneration_try_call_def performGeneration_try_def g
        split: fetch_outcome.splits body_outcome.splits)
  then have "performGeneration_resume_call rt fb Promise_returned p out v
      = performGeneration_resume rt fb p out v" for p v
    by (simp add: performGeneration_resume_call_def performGeneration_resume_def)
  then show "performGeneration_call rt fb Promise_returned out w = performGeneration rt fb out w"
    by (simp add: performGeneration_call_def performGeneration_def
        split: prod.splits option.splits)
  have "detect_try_call rt fb Promise_returned p out v = detect_try rt fb p out v" for p v
    by (simp add: detect_try_call_def detect_try_def d
        split: fetch_outcome.splits body_outcome.splits)
  then have "detect_resume_call rt fb Promise_returned p out v
      = detect_resume rt fb p out v" for p v
    by (simp add: detect_resume_call_def detect_resume_def)
  then show "detect_call rt fb Promise_returned out w = detect rt fb out w"
    by (simp add: detect_call_def detect_def split: prod.splits option.splits)
  have "summarize_try_call rt fb Promise_returned p out v = summarize_try rt fb p out v" for p v
    by (simp add: summarize_try_call_def summarize_try_def s
        split: fetch_outcome.splits body_outcome.splits)
  then have "summarize_resume_call rt fb Promise_returned p out v
      = summarize_resume rt fb p out v" for p v
    by (simp add: summarize_resume_call_def summarize_resume_def)
  then show "summarize_call rt fb Promise_returned out w = summarize rt fb out w"
    by (simp add: summarize_call_def summarize_def split: prod.splits option.splits)
qed

lemma thrown_write_resume:
  "firestore_present fb \<Longrightarrow> displayResults_generation rt d w = (None, w') \<Longrightarrow>
   performGeneration_resume_call rt fb (Thrown e) p (Fetch_resolved True (Body_json d)) w =
     on_element ''regenerateBtn'' (\<lambda>e. e\<lparr>disabled := False\<rparr>)
       (on_element ''generateBtn'' (\<lambda>e. e\<lparr>disabled := False\<rparr>)
         (on_element ''loading'' (\<lambda>e. e\<lparr>style_display := lit ''none''\<rparr>)
           (showError (lit ''Failed to generate text. Please try again.'')
             (console_error [Text (lit ''Error:''), Caught e] w'))))"
  "firestore_present fb \<Longrightarrow> displayResults_detection rt d w = (None, w') \<Longrightarrow>
   detect_resume_call rt fb (Thrown e) p (Fetch_resolved True (Body_json d)) w =
     on_element ''detectBtn'' (\<lambda>e. e\<lparr>disabled := False\<rparr>)
       (on_element ''loading'' (\<lambda>e. e\<lparr>style_display := lit ''none''\<rparr>)
         (showError (lit ''An error occurred while analyzing the text. Please try again.'')
           (console_error [Text (lit ''Error:''), Caught e] w')))"
  "firestore_present fb \<Longrightarrow> displayResults_summary rt d w = (None, w') \<Longrightarrow>
   summarize_resume_call rt fb (Thrown e) p (Fetch_resolved True (Body_json d)) w =
     on_element ''summarizeBtn'' (\<lambda>e. e\<lparr>disabled := False\<rparr>)
       (on_element ''loading'' (\<lambda>e. e\<lparr>style_display := lit ''none''\<rparr>)
         (showError (lit ''Failed to generate summary. Please try again.'')
           (console_error [Text (lit ''Error:''), Caught e] w')))"
  by (simp_all add: performGeneration_resume_call_def performGeneration_try_call_def
      saveToFirestore_generation_call_def detect_resume_call_def detect_try_call_def
      saveToFirestore_detection_call_def summarize_resume_call_def summarize_try_call_def
      saveToFirestore_summary_call_def andThen_def)

lemma call_valid:
  "10 \<le> length (trim (el_value (document w ''promptText''))) \<Longrightarrow>
   performGeneration_call rt fb call out w =
     performGeneration_resume_call rt fb call (trim (el_value (document w ''promptText''))) out
       (snd (performGeneration_start rt w))"
  "50 \<le> length (trim (el_value (document w ''detectText''))) \<Longrightarrow>
   detect_call rt fb call out w =
     detect_resume_call rt fb call (trim (el_value (document w ''detectText''))) out
       (snd (detect_start w))"
  "100 \<le> length (trim (el_value (document w ''summaryText''))) \<Longrightarrow>
   summarize_call rt fb call out w =
     summarize_resume_call rt fb call (trim (el_value (document w ''summaryText''))) out
       (snd (summarize_start rt w))"
  by (simp_all add: performGeneration_call_def detect_call_def summarize_call_def
      performGeneration_start_valid detect_start_valid summarize_start_valid Let_def)

lemma finally_call:
  "style_display (document (performGeneration_resume_call rt fb call p out w) ''loading'')
     = lit ''none''
   \<and> \<not> disabled (document (performGeneration_resume_call rt fb call p out w) ''generateBtn'')
   \<and> \<not> disabled (document (performGeneration_resume_call rt fb call p out w) ''regenerateBtn'')"
  "style_display (document (detect_resume_call rt fb call p out w) ''loading'') = lit ''none''
   \<and> \<not> disabled (document (detect_resume_call rt fb call p out w) ''detectBtn'')"
  "style_display (document (summarize_resume_call rt fb call p out w) ''loading'') = lit ''none''
   \<and> \<not> disabled (document (summarize_resume_call rt fb call p out w) ''summarizeBtn'')"
  by (simp_all add: performGeneration_resume_call_def detect_resume_call_def
      summarize_resume_call_def Let_def split: prod.splits)

lemma thrown_write_is_shown:
  assumes "firestore_present fb"
  shows "10 \<le> length (trim (el_value (document wg ''promptText''))) \<Longrightarrow>
     fst (displayResults_generation rt gdata (snd (performGeneration_start rt wg))) = None \<Longrightarrow>
     textContent (document
        (performGeneration_call rt fb (Thrown e) (Fetch_resolved True (Body_json gdata)) wg)
        ''errorMsg'') = lit ''Failed to generate text. Please try again.''
     \<and> lit ''show'' \<in> set (classList (document
        (performGeneration_call rt fb (Thrown e) (Fetch_resolved True (Body_json gdata)) wg)
        ''errorMsg''))"
    and "50 \<le> length (trim (el_value (document wd ''detectText''))) \<Longrightarrow>
     fst (displayResults_detection rt ddata (snd (detect_start wd))) = None \<Longrightarrow>
     textContent (document
        (detect_call rt fb (Thrown e) (Fetch_resolved True (Body_json ddata)) wd) ''errorMsg'')
       = lit ''An error occurred while analyzing the text. Please try again.''
     \<and> lit ''show'' \<in> set (classList (document
        (detect_call rt fb (Thrown e) (Fetch_resolved True (Body_json ddata)) wd) ''errorMsg''))"
    and "100 \<le> length (trim (el_value (document ws ''summaryText''))) \<Longrightarrow>
     fst (displayResults_summary rt sdata (snd (summarize_start rt ws))) = None \<Longrightarrow>
     textContent (document
        (summarize_call rt fb (Thrown e) (Fetch_resolved True (Body_json sdata)) ws) ''errorMsg'')
       = lit ''Failed to generate summary. Please try again.''
     \<and> lit ''show'' \<in> set (classList (document
        (summarize_call rt fb (Thrown e) (Fetch_resolved True (Body_json sdata)) ws) ''errorMsg''))"
proof -
  assume v: "10 \<le> length (trim (el_value (document wg ''promptText'')))"
    and r: "fst (displayResults_generation rt gdata (snd (performGeneration_start rt wg))) = None"
  from r have "displayResults_generation rt gdata (snd (performGeneration_start rt wg))
      = (None, snd (displayResults_generation rt gdata (snd (performGeneration_start rt wg))))"
    by (cases "displayResults_generation rt gdata (snd (performGeneration_start rt wg))") simp
  from thrown_write_resume(1) [OF assms this]
  show "textContent (document
        (performGeneration_call rt fb (Thrown e) (Fetch_resolved True (Body_json gdata)) wg)
        ''errorMsg'') = lit ''Failed to generate text. Please try again.''
     \<and> lit ''show'' \<in> set (classList (document
        (performGeneration_call rt fb (Thrown e) (Fetch_resolved True (Body_json gdata)) wg)
        ''errorMsg''))"
    by (simp add: call_valid(1) [OF v])
next
  assume v: "50 \<le> length (trim (el_value (document wd ''detectText'')))"
    and r: "fst (displayResults_detection rt ddata (snd (detect_start wd))) = None"
  from r have "displayResults_detection rt ddata (snd (detect_start wd))
      = (None, snd (displayResults_detection rt ddata (snd (detect_start wd))))"
    by (cases "displayResults_detection rt ddata (snd (detect_start wd))") simp
  from thrown_write_resume(2) [OF assms this]
  show "textContent (document
        (detect_call rt fb (Thrown e) (Fetch_resolved True (Body_json ddata)) wd) ''errorMsg'')
       = lit ''An error occurred while analyzing the text. Please try again.''
     \<and> lit ''show'' \<in> set (classList (document
        (detect_call rt fb (Thrown e) (Fetch_resolved True (Body_json ddata)) wd) ''errorMsg''))"
    by (simp add: call_valid(2) [OF v])
next
  assume v: "100 \<le> length (trim (el_value (document ws ''summaryText'')))"
    and r: "fst (displayResults_summary rt sdata (snd (summarize_start rt ws))) = None"
  from r have "displayResults_summary rt sdata (snd (summarize_start rt ws))
      = (None, snd (displayResults_summary rt sdata (snd (summarize_start rt ws))))"
    by (cases "displayResults_summary rt sdata (snd (summarize_start rt ws))") simp
  from thrown_write_resume(3) [OF assms this]
  show "textContent (document
        (summarize_call rt fb (Thrown e) (Fetch_resolved True (Body_json sdata)) ws) ''errorMsg'')
       = lit ''Failed to generate summary. Please try again.''
     \<and> lit ''show'' \<in> set (classList (document
        (summarize_call rt fb (Thrown e) (Fetch_resolved True (Body_json sdata)) ws) ''errorMsg''))"
    by (simp add: call_valid(3) [OF v])
qed

text \<open>
  Claim C5 does not hold of the scripts. The handlers swallow a rejected promise of
  \<open>add\<close>, but they evaluate the write inside their \<open>try\<close> block, so that a write which
  throws lands in the \<open>catch\<close> of the handler. On the sample generation page, with the
  store client present and a write expression that throws (the ReferenceError of an
  unbound \<open>db\<close>), the poem is rendered, the results are shown, and then \<open>errorMsg\<close>
  shows the generic failure message. When the write returns its promise no error is
  shown, whether the promise is then fulfilled or rejected: the visible outcome depends
  on how the audit write fails.
\<close>

theorem thrown_write_shows_generic_error:
  "textContent (document
      (performGeneration_call demo_runtime (Firebase True) (Thrown ReferenceError)
         (Fetch_resolved True (Body_json poem_response)) poem_world) ''generatedText'')
     = lit ''Roses are red''
   \<and> lit ''show'' \<in> set (classList (document
      (performGeneration_call demo_runtime (Firebase True) (Thrown ReferenceError)
         (Fetch_resolved True (Body_json poem_response)) poem_world) ''results''))
   \<and> textContent (document
      (performGeneration_call demo_runtime (Firebase True) (Thrown ReferenceError)
         (Fetch_resolved True (Body_json poem_response)) poem_world) ''errorMsg'')
     = lit ''Failed to generate text. Please try again.''
   \<and> lit ''show'' \<in> set (classList (document
      (performGeneration_call demo_runtime (Firebase True) (Thrown ReferenceError)
         (Fetch_resolved True (Body_json poem_response)) poem_world) ''errorMsg''))
   \<and> lit ''show'' \<notin> set (classList (document
      (performGeneration_call demo_runtime (Firebase True) Promise_returned
         (Fetch_resolved True (Body_json poem_response)) poem_world) ''errorMsg''))
   \<and> lit ''show'' \<notin> set (classList (document
      (add_settled_generation (Rejected (lit ''unavailable''))
         (performGeneration_call demo_runtime (Firebase True) Promise_returned
            (Fetch_resolved True (Body_json poem_response)) poem_world)) ''errorMsg''))"
proof -
  note ok = displayResults_generation_ok [OF sample_responses(1) DOMString_simps(1)
      sample_responses(2) DOMString_simps(2) sample_responses(3) DOMString_simps(2),
      where rt = demo_runtime and w = "snd (performGeneration_start demo_runtime poem_world)"]
  note t = thrown_write_resume(1) [OF present_True ok, where e = ReferenceError
      and p = "trim (el_value (document poem_world ''promptText''))"]
  have a: "textContent (document
      (performGeneration_call demo_runtime (Firebase True) (Thrown ReferenceError)
         (Fetch_resolved True (Body_json poem_response)) poem_world) ''generatedText'')
     = lit ''Roses are red''
   \<and> lit ''show'' \<in> set (classList (document
      (performGeneration_call demo_runtime (Firebase True) (Thrown ReferenceError)
         (Fetch_resolved True (Body_json poem_response)) poem_world) ''results''))
   \<and> textContent (document
      (performGeneration_call demo_runtime (Firebase True) (Thrown ReferenceError)
         (Fetch_resolved True (Body_json poem_response)) poem_world) ''errorMsg'')
     = lit ''Failed to generate text. Please try again.''
   \<and> lit ''show'' \<in> set (classList (document
      (performGeneration_call demo_runtime (Firebase True) (Thrown ReferenceError)
         (Fetch_resolved True (Body_json poem_response)) poem_world) ''errorMsg''))"
    unfolding call_valid(1) [OF sample_valid(1)] t by simp
  note r = rendered_generation [OF sample_responses(1) DOMString_simps(1)
      sample_responses(2) DOMString_simps(2) sample_responses(3) DOMString_simps(2),
      where rt = demo_runtime and fb = "Firebase True"
        and p = "trim (el_value (document poem_world ''promptText''))"
        and w = "snd (performGeneration_start demo_runtime poem_world)"]
  have b: "lit ''show'' \<notin> set (classList (document
      (performGeneration_call demo_runtime (Firebase True) Promise_returned
         (Fetch_resolved True (Body_json poem_response)) poem_world) ''errorMsg''))"
    unfolding call_returns performGeneration_valid [OF sample_valid(1)]
    using r start_hides_error(1) [OF sample_valid(1), where rt = demo_runtime] by simp
  have c: "document (add_settled_generation (Rejected (lit ''unavailable'')) v) = document v" for v
    by (simp add: add_settled_generation_def)
  from a b show ?thesis
    unfolding c by blast
qed

end
